theory Spec2Isabelle
  imports Complex_Main "HOL-Library.AList" "HOL-Library.Stream" "HOL-Library.Word"
begin

section \<open>Data model (ocmr/record.go, fake/cmd_gen_truth.go)\<close>

text \<open>
  A SNOMED-CT concept as the generator sees it: an identifier and a name. The package
  \<open>snomed\<close> itself is not part of the sources at hand; everything it offers is a
  parameter of the model (record \<open>DatabaseService\<close> below).
\<close>

record Concept =
  ConceptID :: int
  FullySpecifiedName :: string

text \<open>\<open>ocmr.Sex\<close>: the two named constants \<open>Male = 1\<close> and \<open>Female = 2\<close>.\<close>

datatype Sex = Male | Female

text \<open>\<open>ocmr.Duration\<close>, in the order of the \<open>iota\<close> block.\<close>

datatype Duration = Unknown | Acute | Subacute | Chronic | Episodic

text \<open>\<open>fake.SexBias\<close>, in the order of the \<open>iota\<close> block.\<close>

datatype SexBias = MenOnly | FemaleOnly | NoSexBias

record ClinicalFinding =
  cfConcept :: Concept
  cfParents :: "Concept list"
  cfDuration :: Duration

record Record =
  Age :: int
  Sex :: Sex
  Findings :: "ClinicalFinding list"
  Answer :: Concept
  Parents :: "Concept list"

record Problem =
  Problem :: Concept
  Duration :: Duration
  Probability :: real

record Truth =
  Diagnosis :: Concept
  tParents :: "Concept list"
  Problems :: "Problem list"
  SexBias :: SexBias
  MeanAge :: int
  StdDevAge :: int

text \<open>
  The fields of the two literal structs carry a prefix, since their Go names are also
  the names of local variables of \<open>generateTruth\<close>.
\<close>

record explicitProblem =
  ep_conceptID :: int
  ep_duration :: Duration
  ep_probability :: real

record explicitTruth =
  et_diagnosis :: int
  et_problems :: "explicitProblem list"
  et_meanAge :: int
  et_stdDevAge :: int

section \<open>Errors and panics\<close>

text \<open>
  A Go \<open>error\<close> value returned by the ontology, and the ways the generator
  aborts: \<open>checkError\<close> panics with the error it was given, \<open>rand.Intn\<close> panics on
  an argument that is not positive, and an index outside a slice panics at run time.
\<close>

datatype error = Error string

datatype panic = PanicError error | PanicIntn | PanicIndex

definition checkError :: "error + 'a \<Rightarrow> panic + 'a" where
  "checkError r = (case r of Inl e \<Rightarrow> Inl (PanicError e) | Inr v \<Rightarrow> Inr v)"

definition index :: "'a list \<Rightarrow> int \<Rightarrow> panic + 'a" where
  "index xs i = (if 0 \<le> i \<and> i < int (length xs) then Inr (xs ! nat i) else Inl PanicIndex)"

section \<open>The ontology gateway\<close>

text \<open>
  The methods of \<open>snomed.DatabaseService\<close> and the package-level helpers and constants
  of \<open>snomed\<close> that the generator calls. A call that returns \<open>(value, error)\<close> is a sum:
  a non-nil error comes with the zero value (a nil pointer, a nil slice). A
  \<open>*snomed.Concept\<close> that may be nil is a \<open>Concept option\<close>. The type \<open>'m\<close> is
  whatever \<open>snomed.SliceToMap\<close> builds.
\<close>

record 'm DatabaseService =
  FetchConcept :: "int \<Rightarrow> error + Concept"
  FetchRecursiveChildren :: "Concept \<Rightarrow> error + Concept list"
  GetAllParents :: "Concept \<Rightarrow> error + Concept list"
  GetParentsOfKind :: "Concept \<Rightarrow> int \<Rightarrow> error + Concept list"
  GetChildrenOfKind :: "Concept \<Rightarrow> int \<Rightarrow> error + Concept list"
  GetSiblings :: "Concept option \<Rightarrow> error + Concept list"
  Genericise :: "Concept \<Rightarrow> 'm \<Rightarrow> Concept option"
  IsA :: "Concept \<Rightarrow> int \<Rightarrow> bool"
  SliceToMap :: "Concept option list \<Rightarrow> 'm"
  MapToSlice :: "(int \<times> Concept) list \<Rightarrow> Concept list"
  FindingSite :: int
  SctDisease :: int

section \<open>Floating point\<close>

text \<open>
  A \<open>float64\<close> is the real number it denotes, an infinity (\<open>Inf True\<close> the negative one)
  or NaN. Arithmetic computes the exact real result and rounds it to the nearest
  \<open>float64\<close>, as IEEE 754 prescribes; the sign of zero is not kept, since neither a
  comparison nor a conversion to \<open>int\<close> reads it.
\<close>

datatype float64 = Fin real | Inf bool | NaN

text \<open>
  The binary exponent of a positive real: \<open>exponent x = k\<close> when \<open>2^k \<le> x < 2^(k+1)\<close>,
  found by halving (from 2 upwards) or doubling (below 1).
\<close>

function expUp :: "real \<Rightarrow> int" where
  "expUp x = (if 2 \<le> x then expUp (x / 2) + 1 else 0)"
  by pat_completeness auto
termination
proof (relation "measure (\<lambda>x. nat \<lfloor>x\<rfloor>)")
  show "wf (measure (\<lambda>x::real. nat \<lfloor>x\<rfloor>))" by simp
next
  fix x :: real
  assume x: "2 \<le> x"
  then have "x / 2 < of_int \<lfloor>x\<rfloor>" by linarith
  then have "\<lfloor>x / 2\<rfloor> < \<lfloor>x\<rfloor>" by (simp add: floor_less_iff)
  moreover from x have "0 < \<lfloor>x\<rfloor>" by simp
  ultimately show "(x / 2, x) \<in> measure (\<lambda>x. nat \<lfloor>x\<rfloor>)" by simp
qed

function expDown :: "real \<Rightarrow> int" where
  "expDown x = (if 0 < x \<and> x < 1 then expDown (2 * x) - 1 else 0)"
  by pat_completeness auto
termination
proof (relation "measure (\<lambda>x. nat \<lceil>1 / x\<rceil>)")
  show "wf (measure (\<lambda>x::real. nat \<lceil>1 / x\<rceil>))" by simp
next
  fix x :: real
  assume x: "0 < x \<and> x < 1"
  then have y: "1 < 1 / x" by simp
  then have c: "2 \<le> \<lceil>1 / x\<rceil>" by linarith
  then have c': "(2::real) \<le> of_int \<lceil>1 / x\<rceil>" by linarith
  have "1 / x \<le> of_int \<lceil>1 / x\<rceil>" by (rule le_of_int_ceiling)
  then have "(1 / x) / 2 \<le> of_int \<lceil>1 / x\<rceil> / 2" by simp
  also from c' have "\<dots> \<le> of_int \<lceil>1 / x\<rceil> - 1" by simp
  finally have "1 / (2 * x) \<le> of_int (\<lceil>1 / x\<rceil> - 1)" by simp
  then have "\<lceil>1 / (2 * x)\<rceil> \<le> \<lceil>1 / x\<rceil> - 1" by (simp only: ceiling_le_iff)
  with c have "nat \<lceil>1 / (2 * x)\<rceil> < nat \<lceil>1 / x\<rceil>" by linarith
  then show "(2 * x, x) \<in> measure (\<lambda>x. nat \<lceil>1 / x\<rceil>)" by simp
qed

declare expUp.simps [simp del] expDown.simps [simp del]

definition exponent :: "real \<Rightarrow> int" where
  "exponent x = (if 1 \<le> x then expUp x else expDown x)"

definition pow2 :: "int \<Rightarrow> real" where
  "pow2 k = (if 0 \<le> k then 2 ^ nat k else 1 / 2 ^ nat (- k))"

text \<open>Rounding to the nearest integer, a tie to the even one.\<close>

definition roundEven :: "real \<Rightarrow> int" where
  "roundEven x =
     (let f = \<lfloor>x\<rfloor>; d = x - of_int f
      in if d < 1 / 2 then f else if 1 / 2 < d then f + 1 else if even f then f else f + 1)"

text \<open>
  Rounding a real to \<open>float64\<close>: to the nearest multiple of the unit in the last of 53
  binary digits (of \<open>2^-1074\<close> for a subnormal), a tie to the even multiple; a result
  of magnitude \<open>2^1024\<close> or more is an infinity.
\<close>

definition round64 :: "real \<Rightarrow> float64" where
  "round64 x =
     (if x = 0 then Fin 0
      else let e = max (exponent \<bar>x\<bar>) (- 1022);
               q = pow2 (e - 52);
               y = of_int (roundEven (x / q)) * q
           in if 2 ^ 1024 \<le> \<bar>y\<bar> then Inf (x < 0) else Fin y)"

text \<open>The product and the sum: the exact result, rounded once.\<close>

definition mul64 :: "float64 \<Rightarrow> float64 \<Rightarrow> float64" where
  "mul64 a b =
     (case (a, b) of
        (Fin x, Fin y) \<Rightarrow> round64 (x * y)
      | (Fin x, Inf s) \<Rightarrow> (if x = 0 then NaN else Inf (s \<noteq> (x < 0)))
      | (Inf s, Fin y) \<Rightarrow> (if y = 0 then NaN else Inf (s \<noteq> (y < 0)))
      | (Inf s, Inf t) \<Rightarrow> Inf (s \<noteq> t)
      | _ \<Rightarrow> NaN)"

definition add64 :: "float64 \<Rightarrow> float64 \<Rightarrow> float64" where
  "add64 a b =
     (case (a, b) of
        (Fin x, Fin y) \<Rightarrow> round64 (x + y)
      | (Fin x, Inf s) \<Rightarrow> Inf s
      | (Inf s, Fin y) \<Rightarrow> Inf s
      | (Inf s, Inf t) \<Rightarrow> (if s = t then Inf s else NaN)
      | _ \<Rightarrow> NaN)"

text \<open>Go's conversion \<open>float64(i)\<close> of an integer.\<close>

definition float64_of_int :: "int \<Rightarrow> float64" where
  "float64_of_int i = round64 (of_int i)"

text \<open>
  Go's conversion \<open>int(f)\<close>: the fraction is discarded (truncation towards zero). For
  a value that does not fit the 64-bit \<open>int\<close>, for an infinity and for NaN the language
  leaves the result to the implementation; the model gives what the amd64 conversion
  instruction delivers, the least \<open>int\<close>.
\<close>

definition int_of_float64 :: "float64 \<Rightarrow> int" where
  "int_of_float64 f =
     (case f of
        Fin x \<Rightarrow>
          (let t = (if 0 \<le> x then \<lfloor>x\<rfloor> else \<lceil>x\<rceil>)
           in if - (2 ^ 63) \<le> t \<and> t < 2 ^ 63 then t else - (2 ^ 63))
      | _ \<Rightarrow> - (2 ^ 63))"

section \<open>The random source\<close>

text \<open>
  \<open>math/rand\<close>'s global generator is modelled by the values it is going to deliver:
  a stream of raw integers for the uniform draws and a stream of normal variates.
  Every draw consumes the head of its stream, so any behaviour the generator can show
  is the behaviour of the model on some pair of streams. \<open>NormFloat64\<close> delivers the
  \<open>float64\<close> nearest to the raw variate.
\<close>

record rng =
  uniform :: "nat stream"
  normal :: "real stream"

definition Intn :: "int \<Rightarrow> rng \<Rightarrow> panic + (int \<times> rng)" where
  "Intn n r =
     (if n \<le> 0 then Inl PanicIntn
      else Inr (int (shd (uniform r)) mod n, r\<lparr>uniform := stl (uniform r)\<rparr>))"

definition unit53 :: "nat \<Rightarrow> real" where
  "unit53 x = real (x mod 2 ^ 53) / 2 ^ 53"

definition unit24 :: "nat \<Rightarrow> real" where
  "unit24 x = real (x mod 2 ^ 24) / 2 ^ 24"

definition Float64 :: "rng \<Rightarrow> real \<times> rng" where
  "Float64 r = (unit53 (shd (uniform r)), r\<lparr>uniform := stl (uniform r)\<rparr>)"

definition Float32 :: "rng \<Rightarrow> real \<times> rng" where
  "Float32 r = (unit24 (shd (uniform r)), r\<lparr>uniform := stl (uniform r)\<rparr>)"

definition NormFloat64 :: "rng \<Rightarrow> float64 \<times> rng" where
  "NormFloat64 r = (round64 (shd (normal r)), r\<lparr>normal := stl (normal r)\<rparr>)"

text \<open>Arithmetic on Go's 64-bit \<open>int\<close> wraps around.\<close>

definition wrap64 :: "int \<Rightarrow> int" where
  "wrap64 i = sint (word_of_int i :: 64 word)"

section \<open>Truth construction (fake/cmd_gen_truth.go)\<close>

definition randomDuration :: "rng \<Rightarrow> panic + (Duration \<times> rng)" where
  "randomDuration r =
     (let possible = [Acute, Subacute, Chronic, Episodic] in
      case Intn (int (length possible) - 1) r of
        Inl p \<Rightarrow> Inl p
      | Inr (i, r1) \<Rightarrow>
          (case index possible i of Inl p \<Rightarrow> Inl p | Inr d \<Rightarrow> Inr (d, r1)))"

definition randomSexBias :: "rng \<Rightarrow> panic + (SexBias \<times> rng)" where
  "randomSexBias r =
     (let possible = [MenOnly, FemaleOnly, NoSexBias] in
      case Intn (int (length possible) - 1) r of
        Inl p \<Rightarrow> Inl p
      | Inr (i, r1) \<Rightarrow>
          (case index possible i of Inl p \<Rightarrow> Inl p | Inr b \<Rightarrow> Inr (b, r1)))"

text \<open>
  \<open>rand.Float32() > 0.01\<close>: the draw is a multiple of \<open>2^-24\<close> and the constant is
  the \<open>float32\<close> nearest to 0.01; no multiple of \<open>2^-24\<close> lies between the two, so
  the comparison with the real 0.01 decides the same.
\<close>

definition randomAge :: "rng \<Rightarrow> panic + (int \<times> rng)" where
  "randomAge r =
     (case Float32 r of (u, r1) \<Rightarrow>
        if u > 0.01 then
          (case Intn 80 r1 of Inl p \<Rightarrow> Inl p | Inr (a, r2) \<Rightarrow> Inr (a + 20, r2))
        else Intn 20 r1)"

definition RandomSex :: "SexBias \<Rightarrow> rng \<Rightarrow> Sex \<times> rng" where
  "RandomSex sb r =
     (if sb = MenOnly then (Male, r)
      else if sb = FemaleOnly then (Female, r)
      else (case Float32 r of (u, r1) \<Rightarrow> if u \<ge> 0.5 then (Male, r1) else (Female, r1)))"

text \<open>
  The three loops of \<open>relatedBySiteForDiagnosis\<close>. \<open>allSymptoms\<close>, a Go map from
  identifier to concept, is an association list: an assignment to a key that is
  present replaces its value, to a new key adds an entry.
\<close>

fun genericSitesOf :: "'m DatabaseService \<Rightarrow> 'm \<Rightarrow> Concept list \<Rightarrow> Concept list" where
  "genericSitesOf dbs structures2 [] = []"
| "genericSitesOf dbs structures2 (site # sites) =
     (case Genericise dbs site structures2 of
        Some genericSite \<Rightarrow> genericSite # genericSitesOf dbs structures2 sites
      | None \<Rightarrow> genericSitesOf dbs structures2 sites)"

fun addSymptoms :: "'m DatabaseService \<Rightarrow> Concept list \<Rightarrow> (int \<times> Concept) list
    \<Rightarrow> (int \<times> Concept) list" where
  "addSymptoms dbs [] allSymptoms = allSymptoms"
| "addSymptoms dbs (symptom # symptoms) allSymptoms =
     (if IsA dbs symptom (SctDisease dbs) = False
      then addSymptoms dbs symptoms (AList.update (ConceptID symptom) symptom allSymptoms)
      else addSymptoms dbs symptoms allSymptoms)"

fun childrenLoop :: "'m DatabaseService \<Rightarrow> Concept list \<Rightarrow> (int \<times> Concept) list
    \<Rightarrow> error + (int \<times> Concept) list" where
  "childrenLoop dbs [] allSymptoms = Inr allSymptoms"
| "childrenLoop dbs (child # allChildren) allSymptoms =
     (case GetChildrenOfKind dbs child (FindingSite dbs) of
        Inl err \<Rightarrow> Inl err
      | Inr symptoms \<Rightarrow> childrenLoop dbs allChildren (addSymptoms dbs symptoms allSymptoms))"

fun sitesLoop :: "'m DatabaseService \<Rightarrow> Concept list \<Rightarrow> (int \<times> Concept) list
    \<Rightarrow> error + (int \<times> Concept) list" where
  "sitesLoop dbs [] allSymptoms = Inr allSymptoms"
| "sitesLoop dbs (site # genericSites) allSymptoms =
     (let allChildren = (case FetchRecursiveChildren dbs site of Inl _ \<Rightarrow> [] | Inr cs \<Rightarrow> cs) in
      case childrenLoop dbs allChildren allSymptoms of
        Inl err \<Rightarrow> Inl err
      | Inr allSymptoms1 \<Rightarrow> sitesLoop dbs genericSites allSymptoms1)"

definition relatedBySiteForDiagnosis :: "'m DatabaseService \<Rightarrow> Concept \<Rightarrow> error + Concept list" where
  "relatedBySiteForDiagnosis dbs concept =
     (case GetParentsOfKind dbs concept (FindingSite dbs) of
        Inl err \<Rightarrow> Inl err
      | Inr sites \<Rightarrow>
          (let thoracic = (case FetchConcept dbs 51185008 of Inl _ \<Rightarrow> None | Inr c \<Rightarrow> Some c);
               structures = (case GetSiblings dbs thoracic of Inl _ \<Rightarrow> [] | Inr cs \<Rightarrow> map Some cs);
               structures1 = structures @ [thoracic];
               structures2 = SliceToMap dbs structures1;
               genericSites = genericSitesOf dbs structures2 sites
           in case sitesLoop dbs genericSites [] of
                Inl err \<Rightarrow> Inl err
              | Inr allSymptoms \<Rightarrow> Inr (MapToSlice dbs allSymptoms)))"

text \<open>The loop of \<open>generateTruth\<close> that draws \<open>numSymptoms\<close> problems.\<close>

fun drawProblems :: "Concept list \<Rightarrow> int \<Rightarrow> nat \<Rightarrow> rng \<Rightarrow> panic + (Problem list \<times> rng)" where
  "drawProblems symptoms totalSymptoms 0 r = Inr ([], r)"
| "drawProblems symptoms totalSymptoms (Suc k) r =
     (case Intn (totalSymptoms - 1) r of
        Inl p \<Rightarrow> Inl p
      | Inr (i, r1) \<Rightarrow>
          (case index symptoms i of
             Inl p \<Rightarrow> Inl p
           | Inr symptom \<Rightarrow>
               (case randomDuration r1 of
                  Inl p \<Rightarrow> Inl p
                | Inr (d, r2) \<Rightarrow>
                    (case Float64 r2 of (pr, r3) \<Rightarrow>
                       (case drawProblems symptoms totalSymptoms k r3 of
                          Inl p \<Rightarrow> Inl p
                        | Inr (rest, r4) \<Rightarrow>
                            Inr (\<lparr>Problem = symptom, Duration = d, Probability = pr\<rparr> # rest, r4))))))"

definition generateTruth :: "'m DatabaseService \<Rightarrow> Concept \<Rightarrow> rng
    \<Rightarrow> panic + ((Truth option \<times> bool) \<times> rng)" where
  "generateTruth db diagnosis r =
     (case checkError (relatedBySiteForDiagnosis db diagnosis) of
        Inl p \<Rightarrow> Inl p
      | Inr symptoms \<Rightarrow>
          (let totalSymptoms = int (length symptoms) in
           if totalSymptoms > 0 then
             (case Intn (min 30 totalSymptoms) r of
                Inl p \<Rightarrow> Inl p
              | Inr (n, r1) \<Rightarrow>
                  (let numSymptoms = 1 + n in
                   case checkError (GetAllParents db diagnosis) of
                     Inl p \<Rightarrow> Inl p
                   | Inr parents \<Rightarrow>
                       (case drawProblems symptoms totalSymptoms (nat numSymptoms) r1 of
                          Inl p \<Rightarrow> Inl p
                        | Inr (problems, r2) \<Rightarrow>
                            (case randomAge r2 of
                               Inl p \<Rightarrow> Inl p
                             | Inr (meanAge, r3) \<Rightarrow>
                                 (let sd = min meanAge 20 in
                                  case randomSexBias r3 of
                                    Inl p \<Rightarrow> Inl p
                                  | Inr (bias, r4) \<Rightarrow>
                                      (case Intn sd r4 of
                                         Inl p \<Rightarrow> Inl p
                                       | Inr (s, r5) \<Rightarrow>
                                           Inr ((Some \<lparr>Diagnosis = diagnosis, tParents = parents,
                                                   Problems = problems, SexBias = bias,
                                                   MeanAge = meanAge, StdDevAge = s\<rparr>, True), r5)))))))
           else Inr ((None, False), r)))"

section \<open>Sampling a truth into a record\<close>

definition ToFinding :: "'m DatabaseService \<Rightarrow> Problem \<Rightarrow> panic + ClinicalFinding" where
  "ToFinding db fp =
     (case checkError (GetAllParents db (Problem fp)) of
        Inl p \<Rightarrow> Inl p
      | Inr parents \<Rightarrow>
          Inr \<lparr>cfConcept = Problem fp, cfParents = parents, cfDuration = Duration fp\<rparr>)"

text \<open>The loop of \<open>ToQuestion\<close> over the problems of the truth.\<close>

fun findingsLoop :: "'m DatabaseService \<Rightarrow> Problem list \<Rightarrow> rng
    \<Rightarrow> panic + (ClinicalFinding list \<times> rng)" where
  "findingsLoop db [] r = Inr ([], r)"
| "findingsLoop db (problem # rest) r =
     (case Float64 r of (u, r1) \<Rightarrow>
        if Probability problem > u then
          (case ToFinding db problem of
             Inl p \<Rightarrow> Inl p
           | Inr f \<Rightarrow>
               (case findingsLoop db rest r1 of
                  Inl p \<Rightarrow> Inl p
                | Inr (fs, r2) \<Rightarrow> Inr (f # fs, r2)))
        else findingsLoop db rest r1)"

definition ToQuestion :: "'m DatabaseService \<Rightarrow> Truth \<Rightarrow> rng \<Rightarrow> panic + (Record \<times> rng)" where
  "ToQuestion db ft r =
     (case findingsLoop db (Problems ft) r of
        Inl p \<Rightarrow> Inl p
      | Inr (findings, r1) \<Rightarrow>
          (case randomAge r1 of
             Inl p \<Rightarrow> Inl p
           | Inr (age0, r2) \<Rightarrow>
               (case (if MeanAge ft > 0 \<and> StdDevAge ft > 0
                      then (case NormFloat64 r2 of (z, r3) \<Rightarrow>
                              (let age = int_of_float64
                                           (add64 (mul64 z (float64_of_int (StdDevAge ft)))
                                                  (float64_of_int (MeanAge ft)))
                               in (if age < 0 then 0 else age, r3)))
                      else (age0, r2)) of
                  (age, r3) \<Rightarrow>
                    (case RandomSex (SexBias ft) r3 of (sex, r4) \<Rightarrow>
                       (case checkError (GetAllParents db (Diagnosis ft)) of
                          Inl p \<Rightarrow> Inl p
                        | Inr parents \<Rightarrow>
                            Inr (\<lparr>Age = age, Sex = sex, Findings = findings,
                                  Answer = Diagnosis ft, Parents = parents\<rparr>, r4))))))"

section \<open>Explicit truths\<close>

definition toFakeProblem :: "'m DatabaseService \<Rightarrow> explicitProblem \<Rightarrow> error + Problem" where
  "toFakeProblem db ep =
     (case FetchConcept db (ep_conceptID ep) of
        Inl err \<Rightarrow> Inl err
      | Inr concept \<Rightarrow>
          Inr \<lparr>Problem = concept, Duration = ep_duration ep, Probability = ep_probability ep\<rparr>)"

fun toFakeProblems :: "'m DatabaseService \<Rightarrow> explicitProblem list \<Rightarrow> error + Problem list" where
  "toFakeProblems db [] = Inr []"
| "toFakeProblems db (p # ps) =
     (case toFakeProblem db p of
        Inl err \<Rightarrow> Inl err
      | Inr fp \<Rightarrow>
          (case toFakeProblems db ps of Inl err \<Rightarrow> Inl err | Inr fps \<Rightarrow> Inr (fp # fps)))"

definition toFakeTruth :: "'m DatabaseService \<Rightarrow> explicitTruth \<Rightarrow> error + Truth" where
  "toFakeTruth db et =
     (case FetchConcept db (et_diagnosis et) of
        Inl err \<Rightarrow> Inl err
      | Inr diag \<Rightarrow>
          (case toFakeProblems db (et_problems et) of
             Inl err \<Rightarrow> Inl err
           | Inr probs \<Rightarrow>
               (case GetAllParents db diag of
                  Inl err \<Rightarrow> Inl err
                | Inr parents \<Rightarrow>
                    Inr \<lparr>Diagnosis = diag, tParents = parents, Problems = probs,
                         SexBias = NoSexBias, MeanAge = et_meanAge et, StdDevAge = et_stdDevAge et\<rparr>)))"

definition myocardialInfarction :: explicitTruth where
  "myocardialInfarction =
     \<lparr>et_diagnosis = 22298006,
      et_problems =
        [\<lparr>ep_conceptID = 29857009, ep_duration = Acute, ep_probability = 0.95\<rparr>,
         \<lparr>ep_conceptID = 267036007, ep_duration = Acute, ep_probability = 0.70\<rparr>,
         \<lparr>ep_conceptID = 415690000, ep_duration = Acute, ep_probability = 0.80\<rparr>,
         \<lparr>ep_conceptID = 426555006, ep_duration = Acute, ep_probability = 0.55\<rparr>,
         \<lparr>ep_conceptID = 76388001, ep_duration = Acute, ep_probability = 0.60\<rparr>],
      et_meanAge = 60, et_stdDevAge = 20\<rparr>"

definition MyocardialInfarctionTruth :: "'m DatabaseService \<Rightarrow> error + Truth" where
  "MyocardialInfarctionTruth db = toFakeTruth db myocardialInfarction"

section \<open>Replication by prevalence (GenerateFakeTruth)\<close>

text \<open>
  The count \<open>p\<close> of \<open>GenerateFakeTruth\<close> for one truth, from the value
  \<open>calculatePrevalence\<close> returned for its diagnosis and the argument \<open>n\<close>, and the
  loop that samples the truth \<open>p\<close> times (no time when \<open>p\<close> is not positive).
\<close>

definition replicationCount :: "float64 \<Rightarrow> int \<Rightarrow> int" where
  "replicationCount prevalence n =
     wrap64 (5 + wrap64 (int_of_float64 (mul64 prevalence (Fin 10000)) * n))"

fun questionsLoop :: "'m DatabaseService \<Rightarrow> Truth \<Rightarrow> nat \<Rightarrow> rng \<Rightarrow> panic + (Record list \<times> rng)" where
  "questionsLoop db truth 0 r = Inr ([], r)"
| "questionsLoop db truth (Suc k) r =
     (case ToQuestion db truth r of
        Inl p \<Rightarrow> Inl p
      | Inr (question, r1) \<Rightarrow>
          (case questionsLoop db truth k r1 of
             Inl p \<Rightarrow> Inl p
           | Inr (questions, r2) \<Rightarrow> Inr (question # questions, r2)))"

definition questionsFor :: "'m DatabaseService \<Rightarrow> Truth \<Rightarrow> float64 \<Rightarrow> int \<Rightarrow> rng
    \<Rightarrow> panic + (Record list \<times> rng)" where
  "questionsFor db truth prevalence n r = questionsLoop db truth (nat (replicationCount prevalence n)) r"

section \<open>What the specification says of the sampled findings\<close>

text \<open>
  The specification's rule for the findings of a record, stated apart from the code:
  given the problems and one uniform draw per problem, a problem is included iff its
  draw is less than its probability; the order of the problems is kept.
\<close>

definition spec_included :: "Problem list \<Rightarrow> real list \<Rightarrow> Problem list" where
  "spec_included ps us = map fst (filter (\<lambda>(p, u). u < Probability p) (zip ps us))"

section \<open>A small ontology for concrete runs\<close>

definition conceptOf :: "int \<Rightarrow> Concept" where
  "conceptOf i = \<lparr>ConceptID = i, FullySpecifiedName = ''concept''\<rparr>"

text \<open>
  Every diagnosis has the finding sites 10 and 11, which generalise to the regions 110
  and 111; the lookups of descendants, of ancestors and of the findings of a descendant
  are left open.
\<close>

definition exampleDb :: "(Concept \<Rightarrow> error + Concept list) \<Rightarrow> (Concept \<Rightarrow> error + Concept list)
    \<Rightarrow> (Concept \<Rightarrow> Concept list) \<Rightarrow> (Concept option list) DatabaseService" where
  "exampleDb children parents findings =
     \<lparr>FetchConcept = (\<lambda>i. Inr (conceptOf i)),
      FetchRecursiveChildren = children,
      GetAllParents = parents,
      GetParentsOfKind = (\<lambda>c k. Inr [conceptOf 10, conceptOf 11]),
      GetChildrenOfKind = (\<lambda>child k. Inr (findings child)),
      GetSiblings = (\<lambda>c. Inr []),
      Genericise = (\<lambda>site m. Some (conceptOf (ConceptID site + 100))),
      IsA = (\<lambda>c k. False),
      SliceToMap = (\<lambda>cs. cs),
      MapToSlice = map snd,
      FindingSite = 363698007,
      SctDisease = 64572001\<rparr>"

definition oneChild :: "Concept \<Rightarrow> error + Concept list" where
  "oneChild site = Inr [conceptOf (ConceptID site + 100)]"

definition failingChildren :: "Concept \<Rightarrow> error + Concept list" where
  "failingChildren site =
     (if ConceptID site = 111 then Inl (Error ''no children'') else oneChild site)"

definition noParents :: "Concept \<Rightarrow> error + Concept list" where
  "noParents c = Inr []"

definition failingParents :: "Concept \<Rightarrow> error + Concept list" where
  "failingParents c = Inl (Error ''no parents'')"

definition ownFinding :: "Concept \<Rightarrow> Concept list" where
  "ownFinding child = [conceptOf (ConceptID child + 100)]"

definition sameFinding :: "Concept \<Rightarrow> Concept list" where
  "sameFinding child = [conceptOf 300]"

definition constRng :: "nat \<Rightarrow> real \<Rightarrow> rng" where
  "constRng x z = \<lparr>uniform = sconst x, normal = sconst z\<rparr>"

definition exampleTruth :: "SexBias \<Rightarrow> int \<Rightarrow> int \<Rightarrow> Truth" where
  "exampleTruth bias m sd =
     \<lparr>Diagnosis = conceptOf 22298006, tParents = [],
      Problems = [\<lparr>Problem = conceptOf 1, Duration = Acute, Probability = 0\<rparr>,
                  \<lparr>Problem = conceptOf 2, Duration = Chronic, Probability = 1\<rparr>],
      SexBias = bias, MeanAge = m, StdDevAge = sd\<rparr>"

text \<open>
  A record sampled from \<open>exampleTruth\<close> in which only the second problem (the one with
  probability 1) is included.
\<close>

definition exampleRecord :: "int \<Rightarrow> Sex \<Rightarrow> Record" where
  "exampleRecord a s =
     \<lparr>Age = a, Sex = s,
      Findings = [\<lparr>cfConcept = conceptOf 2, cfParents = [], cfDuration = Chronic\<rparr>],
      Answer = conceptOf 22298006, Parents = []\<rparr>"

definition noFinding :: "Concept \<Rightarrow> Concept list" where
  "noFinding child = []"

text \<open>The truth \<open>generateTruth\<close> builds on \<open>exampleDb\<close> when every raw draw is \<open>2^23\<close>.\<close>

definition generatedTruth :: Truth where
  "generatedTruth =
     \<lparr>Diagnosis = conceptOf 1, tParents = [],
      Problems = [\<lparr>Problem = conceptOf 310, Duration = Chronic, Probability = 1 / 2 ^ 30\<rparr>],
      SexBias = MenOnly, MeanAge = 68, StdDevAge = 8\<rparr>"

text \<open>An explicit truth whose standard deviation exceeds its mean age.\<close>

definition uncapped :: explicitTruth where
  "uncapped = \<lparr>et_diagnosis = 1, et_problems = [], et_meanAge = 10, et_stdDevAge = 50\<rparr>"

text \<open>\<open>exampleDb\<close> with the concept of the ST elevation made unresolvable.\<close>

definition stElevationMissing :: "(Concept option list) DatabaseService" where
  "stElevationMissing =
     (exampleDb oneChild noParents ownFinding)
       \<lparr>FetchConcept := (\<lambda>i. if i = 76388001 then Inl (Error ''unresolvable'') else Inr (conceptOf i))\<rparr>"

text \<open>\<open>exampleDb\<close> with a failing lookup of the siblings of the reference region.\<close>

definition siblingsFailing :: "(Concept option list) DatabaseService" where
  "siblingsFailing =
     (exampleDb oneChild noParents ownFinding)
       \<lparr>GetSiblings := (\<lambda>c. Inl (Error ''no siblings''))\<rparr>"

text \<open>
  A truth of three problems of probability one half, and a random source whose first
  three raw draws are given (\<open>2^51\<close>, \<open>2^52\<close> and \<open>3 * 2^51\<close> are the \<open>Float64\<close> draws
  0.25, 0.5 and 0.75).
\<close>

definition halfTruth :: Truth where
  "halfTruth =
     \<lparr>Diagnosis = conceptOf 22298006, tParents = [],
      Problems = [\<lparr>Problem = conceptOf 1, Duration = Acute, Probability = 0.5\<rparr>,
                  \<lparr>Problem = conceptOf 2, Duration = Subacute, Probability = 0.5\<rparr>,
                  \<lparr>Problem = conceptOf 3, Duration = Chronic, Probability = 0.5\<rparr>],
      SexBias = NoSexBias, MeanAge = 60, StdDevAge = 10\<rparr>"

definition drawsRng :: "nat \<Rightarrow> nat \<Rightarrow> nat \<Rightarrow> rng" where
  "drawsRng a b c = \<lparr>uniform = a ## b ## c ## sconst 8388608, normal = sconst 0\<rparr>"

text \<open>The evaluation rules of the floating-point model, for concrete runs.\<close>

lemmas f64 = round64_def exponent_def expUp.simps expDown.simps pow2_def roundEven_def mul64_def
  add64_def float64_of_int_def int_of_float64_def Let_def

section \<open>Facts about the random source\<close>

lemma unit53_range: "0 \<le> unit53 x \<and> unit53 x < 1"
  by (simp add: unit53_def)

lemma unit24_range: "0 \<le> unit24 x \<and> unit24 x < 1"
  by (simp add: unit24_def)

lemma Intn_pos: "0 < n \<Longrightarrow> Intn n r = Inr (int (shd (uniform r)) mod n, r\<lparr>uniform := stl (uniform r)\<rparr>)"
  by (simp add: Intn_def)

lemma Intn_nonpos: "n \<le> 0 \<Longrightarrow> Intn n r = Inl PanicIntn"
  by (simp add: Intn_def)

lemma Intn_Inr:
  assumes "Intn n r = Inr (v, r')"
  shows "0 < n" and "0 \<le> v" and "v < n" and "r' = r\<lparr>uniform := stl (uniform r)\<rparr>"
  using assms by (auto simp: Intn_def split: if_splits)

text \<open>\<open>randomAge\<close> never panics: both of its \<open>Intn\<close> arguments are positive constants.\<close>

lemma randomAge_eq:
  "randomAge r =
     Inr (if unit24 (shd (uniform r)) > 0.01 then int (uniform r !! 1) mod 80 + 20
          else int (uniform r !! 1) mod 20,
          r\<lparr>uniform := sdrop 2 (uniform r)\<rparr>)"
  by (simp add: randomAge_def Float32_def Intn_def numeral_2_eq_2)

section \<open>Facts about the loop of ToQuestion\<close>

lemma findingsLoop_rng:
  "findingsLoop db ps r = Inr (fs, r') \<Longrightarrow> r' = r\<lparr>uniform := sdrop (length ps) (uniform r)\<rparr>"
proof (induction ps arbitrary: r fs)
  case Nil
  then show ?case by simp
next
  case (Cons p ps)
  from Cons.prems show ?case
    by (auto simp: Float64_def dest!: Cons.IH split: if_splits sum.splits prod.splits)
qed

lemma findingsLoop_included:
  "findingsLoop db ps r = Inr (fs, r') \<Longrightarrow>
     map cfConcept fs = map Problem (spec_included ps (map unit53 (stake (length ps) (uniform r)))) \<and>
     map cfDuration fs = map Duration (spec_included ps (map unit53 (stake (length ps) (uniform r))))"
proof (induction ps arbitrary: r fs)
  case Nil
  then show ?case by (simp add: spec_included_def)
next
  case (Cons p ps)
  from Cons.prems show ?case
    by (auto simp: Float64_def ToFinding_def checkError_def spec_included_def dest!: Cons.IH
        split: if_splits sum.splits prod.splits)
qed

lemma ToQuestion_Inr:
  assumes "ToQuestion db ft r = Inr (q, r')"
  obtains fs r1 where "findingsLoop db (Problems ft) r = Inr (fs, r1)"
    and "Findings q = fs"
    and "Age q = (if MeanAge ft > 0 \<and> StdDevAge ft > 0
                  then max 0 (int_of_float64
                                (add64 (mul64 (round64 (shd (normal r1))) (float64_of_int (StdDevAge ft)))
                                       (float64_of_int (MeanAge ft))))
                  else (if unit24 (shd (uniform r1)) > 0.01 then int (uniform r1 !! 1) mod 80 + 20
                        else int (uniform r1 !! 1) mod 20))"
    and "Sex q = fst (RandomSex (SexBias ft) (r1\<lparr>uniform := sdrop 2 (uniform r1)\<rparr>))"
  using assms
  by (auto simp: ToQuestion_def randomAge_eq NormFloat64_def RandomSex_def Float32_def Let_def max_def
      split: sum.splits prod.splits if_splits)

lemma ToQuestion_returns:
  "(\<exists>q r'. ToQuestion db ft r = Inr (q, r')) =
     ((\<exists>fs r1. findingsLoop db (Problems ft) r = Inr (fs, r1)) \<and>
      (\<exists>a. GetAllParents db (Diagnosis ft) = Inr a))"
  by (auto simp: ToQuestion_def randomAge_eq checkError_def Let_def
      split: sum.splits prod.splits if_splits)

lemma ToQuestion_example:
  "ToQuestion (exampleDb oneChild noParents ownFinding) (exampleTruth bias m sd) (constRng 8388608 z) =
     Inr (exampleRecord
            (if m > 0 \<and> sd > 0
             then max 0 (int_of_float64
                           (add64 (mul64 (round64 z) (float64_of_int sd)) (float64_of_int m)))
             else 68)
            (if bias = FemaleOnly then Female else Male),
          constRng 8388608 z)"
  by (simp add: ToQuestion_def ToFinding_def exampleTruth_def exampleRecord_def exampleDb_def
      conceptOf_def noParents_def constRng_def checkError_def Intn_def randomAge_def Float32_def
      Float64_def unit24_def unit53_def RandomSex_def NormFloat64_def max_def)

lemma ToFinding_Inr:
  "(ToFinding db p = Inr f) =
     (\<exists>a. GetAllParents db (Problem p) = Inr a \<and>
          f = \<lparr>cfConcept = Problem p, cfParents = a, cfDuration = Duration p\<rparr>)"
  by (auto simp: ToFinding_def checkError_def split: sum.splits)

lemma findingsLoop_findings:
  "findingsLoop db ps r = Inr (fs, r') \<Longrightarrow>
     map Inr fs = map (ToFinding db) (spec_included ps (map unit53 (stake (length ps) (uniform r))))"
proof (induction ps arbitrary: r fs)
  case Nil
  then show ?case by (simp add: spec_included_def)
next
  case (Cons p ps)
  from Cons.prems show ?case
    by (auto simp: Float64_def spec_included_def dest!: Cons.IH
        split: if_splits sum.splits prod.splits)
qed

lemma findingsLoop_returns:
  "\<forall>p \<in> set (spec_included ps (map unit53 (stake (length ps) (uniform r)))).
      \<exists>f. ToFinding db p = Inr f \<Longrightarrow>
   \<exists>fs r'. findingsLoop db ps r = Inr (fs, r')"
proof (induction ps arbitrary: r)
  case Nil
  then show ?case by simp
next
  case (Cons p ps)
  have "\<forall>p \<in> set (spec_included ps (map unit53 (stake (length ps) (uniform (r\<lparr>uniform := stl (uniform r)\<rparr>))))).
      \<exists>f. ToFinding db p = Inr f"
    using Cons.prems by (auto simp: spec_included_def)
  from Cons.IH[OF this] obtain fs r' where
    rest: "findingsLoop db ps (r\<lparr>uniform := stl (uniform r)\<rparr>) = Inr (fs, r')" by blast
  show ?case
  proof (cases "unit53 (shd (uniform r)) < Probability p")
    case True
    with Cons.prems obtain f where "ToFinding db p = Inr f"
      by (auto simp: spec_included_def)
    with True rest show ?thesis by (simp add: Float64_def)
  next
    case False
    with rest show ?thesis by (simp add: Float64_def)
  qed
qed

text \<open>
  The coin of \<open>RandomSex\<close> is fair: of the \<open>2^24\<close> values of a \<open>Float32\<close> draw,
  exactly the upper half is at least 0.5.
\<close>

lemma unit24_half: "(unit24 x \<ge> 0.5) = (2 ^ 23 \<le> x mod 2 ^ 24)"
proof -
  have "(unit24 x \<ge> 0.5) = (real (2 ^ 23) \<le> real (x mod 2 ^ 24))"
    by (simp add: unit24_def field_simps)
  then show ?thesis by (simp only: of_nat_le_iff)
qed

section \<open>Sampling: findings, age and sex of a record\<close>

text \<open>
  C7. \<open>ToQuestion\<close> draws one \<open>Float64\<close> per problem, in order (the \<open>i\<close>-th draw of the call
  for the \<open>i\<close>-th problem, a value of \<open>[0,1)\<close>), and a problem is included iff its draw is
  strictly less than its probability. The call returns a record exactly when the
  ancestors of every included problem and of the diagnosis can be looked up; the
  findings of the record are then, in order, what \<open>ToFinding\<close> returns for the included
  problems, each with the problem's concept and duration. A problem of probability 0
  is never included.
\<close>

theorem ToQuestion_includes_iff_draw_below_probability:
  "((\<exists>q r'. ToQuestion db ft r = Inr (q, r')) \<longleftrightarrow>
      (\<forall>p \<in> set (spec_included (Problems ft) (map unit53 (stake (length (Problems ft)) (uniform r)))).
         \<exists>a. GetAllParents db (Problem p) = Inr a) \<and>
      (\<exists>a. GetAllParents db (Diagnosis ft) = Inr a)) \<and>
   (\<forall>q r'. ToQuestion db ft r = Inr (q, r') \<longrightarrow>
      map Inr (Findings q) =
        map (ToFinding db)
          (spec_included (Problems ft) (map unit53 (stake (length (Problems ft)) (uniform r)))) \<and>
      map cfConcept (Findings q) =
        map Problem (spec_included (Problems ft) (map unit53 (stake (length (Problems ft)) (uniform r)))) \<and>
      map cfDuration (Findings q) =
        map Duration (spec_included (Problems ft) (map unit53 (stake (length (Problems ft)) (uniform r))))) \<and>
   spec_included (Problems ft) (map unit53 (stake (length (Problems ft)) (uniform r))) =
     map fst (filter (\<lambda>(p, u). u < Probability p)
       (zip (Problems ft) (map unit53 (stake (length (Problems ft)) (uniform r))))) \<and>
   (\<forall>u \<in> set (map unit53 (stake (length (Problems ft)) (uniform r))). 0 \<le> u \<and> u < 1) \<and>
   (\<forall>p \<in> set (spec_included (Problems ft) (map unit53 (stake (length (Problems ft)) (uniform r)))).
        Probability p \<noteq> 0)"
proof (intro conjI)
  let ?us = "map unit53 (stake (length (Problems ft)) (uniform r))"
  let ?inc = "spec_included (Problems ft) ?us"
  show "(\<exists>q r'. ToQuestion db ft r = Inr (q, r')) \<longleftrightarrow>
      (\<forall>p \<in> set ?inc. \<exists>a. GetAllParents db (Problem p) = Inr a) \<and>
      (\<exists>a. GetAllParents db (Diagnosis ft) = Inr a)"
  proof -
    have "(\<exists>fs r1. findingsLoop db (Problems ft) r = Inr (fs, r1)) \<longleftrightarrow>
          (\<forall>p \<in> set ?inc. \<exists>a. GetAllParents db (Problem p) = Inr a)"
    proof
      assume "\<exists>fs r1. findingsLoop db (Problems ft) r = Inr (fs, r1)"
      then obtain fs r1 where l: "findingsLoop db (Problems ft) r = Inr (fs, r1)" by blast
      show "\<forall>p \<in> set ?inc. \<exists>a. GetAllParents db (Problem p) = Inr a"
      proof
        fix p
        assume "p \<in> set ?inc"
        then have "ToFinding db p \<in> set (map (ToFinding db) ?inc)" by simp
        with findingsLoop_findings[OF l] have "ToFinding db p \<in> set (map Inr fs)" by simp
        then obtain f where "ToFinding db p = Inr f" by auto
        then show "\<exists>a. GetAllParents db (Problem p) = Inr a" by (auto simp: ToFinding_Inr)
      qed
    next
      assume "\<forall>p \<in> set ?inc. \<exists>a. GetAllParents db (Problem p) = Inr a"
      then have "\<forall>p \<in> set ?inc. \<exists>f. ToFinding db p = Inr f" by (simp add: ToFinding_Inr)
      then show "\<exists>fs r1. findingsLoop db (Problems ft) r = Inr (fs, r1)"
        by (rule findingsLoop_returns)
    qed
    then show ?thesis by (simp add: ToQuestion_returns)
  qed
  show "\<forall>q r'. ToQuestion db ft r = Inr (q, r') \<longrightarrow>
      map Inr (Findings q) = map (ToFinding db) ?inc \<and>
      map cfConcept (Findings q) = map Problem ?inc \<and>
      map cfDuration (Findings q) = map Duration ?inc"
  proof (intro allI impI)
    fix q r'
    assume "ToQuestion db ft r = Inr (q, r')"
    then obtain fs r1 where l: "findingsLoop db (Problems ft) r = Inr (fs, r1)" and f: "Findings q = fs"
      by (rule ToQuestion_Inr)
    from findingsLoop_findings[OF l] findingsLoop_included[OF l] f
    show "map Inr (Findings q) = map (ToFinding db) ?inc \<and>
      map cfConcept (Findings q) = map Problem ?inc \<and>
      map cfDuration (Findings q) = map Duration ?inc" by simp
  qed
  show "?inc = map fst (filter (\<lambda>(p, u). u < Probability p) (zip (Problems ft) ?us))"
    by (simp add: spec_included_def)
  show 1: "\<forall>u \<in> set ?us. 0 \<le> u \<and> u < 1"
    using unit53_range by auto
  show "\<forall>p \<in> set ?inc. Probability p \<noteq> 0"
  proof
    fix p
    assume "p \<in> set ?inc"
    then obtain u where "(p, u) \<in> set (zip (Problems ft) ?us)" and lt: "u < Probability p"
      by (auto simp: spec_included_def)
    then have "u \<in> set ?us" by (meson set_zip_rightD)
    with 1 have "0 \<le> u" by blast
    with lt show "Probability p \<noteq> 0" by simp
  qed
qed

lemma halfTruth_run:
  "ToQuestion (exampleDb oneChild noParents ownFinding) halfTruth (drawsRng a b c) =
     Inr (\<lparr>Age = 60, Sex = Male,
           Findings =
             (if unit53 a < 0.5 then [\<lparr>cfConcept = conceptOf 1, cfParents = [], cfDuration = Acute\<rparr>] else []) @
             (if unit53 b < 0.5 then [\<lparr>cfConcept = conceptOf 2, cfParents = [], cfDuration = Subacute\<rparr>] else []) @
             (if unit53 c < 0.5 then [\<lparr>cfConcept = conceptOf 3, cfParents = [], cfDuration = Chronic\<rparr>] else []),
           Answer = conceptOf 22298006, Parents = []\<rparr>, constRng 8388608 0)"
  by (simp add: ToQuestion_def ToFinding_def halfTruth_def exampleDb_def
      conceptOf_def noParents_def drawsRng_def constRng_def checkError_def Intn_def randomAge_def Float32_def
      Float64_def unit24_def RandomSex_def NormFloat64_def max_def f64)

theorem ToQuestion_includes_witness:
  "ToQuestion (exampleDb oneChild noParents ownFinding) halfTruth (drawsRng (2 ^ 51) (2 ^ 52) (3 * 2 ^ 51)) =
     Inr (\<lparr>Age = 60, Sex = Male,
           Findings = [\<lparr>cfConcept = conceptOf 1, cfParents = [], cfDuration = Acute\<rparr>],
           Answer = conceptOf 22298006, Parents = []\<rparr>, constRng 8388608 0) \<and>
   map unit53 (stake (length (Problems halfTruth)) (uniform (drawsRng (2 ^ 51) (2 ^ 52) (3 * 2 ^ 51)))) =
     [0.25, 0.5, 0.75] \<and>
   spec_included (Problems halfTruth) [0.25, 0.5, 0.75] =
     [\<lparr>Problem = conceptOf 1, Duration = Acute, Probability = 0.5\<rparr>] \<and>
   ToQuestion (exampleDb oneChild noParents ownFinding) halfTruth (drawsRng (3 * 2 ^ 51) (2 ^ 52) (2 ^ 51)) =
     Inr (\<lparr>Age = 60, Sex = Male,
           Findings = [\<lparr>cfConcept = conceptOf 3, cfParents = [], cfDuration = Chronic\<rparr>],
           Answer = conceptOf 22298006, Parents = []\<rparr>, constRng 8388608 0) \<and>
   map unit53 (stake (length (Problems halfTruth)) (uniform (drawsRng (3 * 2 ^ 51) (2 ^ 52) (2 ^ 51)))) =
     [0.75, 0.5, 0.25] \<and>
   spec_included (Problems halfTruth) [0.75, 0.5, 0.25] =
     [\<lparr>Problem = conceptOf 3, Duration = Chronic, Probability = 0.5\<rparr>]"
proof -
  have u: "unit53 (2 ^ 51) = 0.25" "unit53 (2 ^ 52) = 0.5" "unit53 (3 * 2 ^ 51) = 0.75"
    by (simp_all add: unit53_def)
  note t = ToQuestion_includes_iff_draw_below_probability
  from t[of "exampleDb oneChild noParents ownFinding" halfTruth "drawsRng (2 ^ 51) (2 ^ 52) (3 * 2 ^ 51)"]
    t[of "exampleDb oneChild noParents ownFinding" halfTruth "drawsRng (3 * 2 ^ 51) (2 ^ 52) (2 ^ 51)"]
    u
  show ?thesis
    by (simp add: halfTruth_run) (simp add: halfTruth_def drawsRng_def spec_included_def)
qed

text \<open>
  C8. Whenever \<open>ToQuestion\<close> returns a record: if the truth's mean age and standard
  deviation are both positive, the age is the normal variate drawn by the call,
  multiplied by the standard deviation and added to the mean in \<open>float64\<close> arithmetic,
  converted to \<open>int\<close> and clamped at 0: the integer part of a result that is not
  negative, 0 for a negative result, never negative. Otherwise the age is what
  \<open>randomAge\<close> returned after the draws of the findings, an integer of \<open>[20, 100)\<close> when
  its \<open>Float32\<close> draw exceeds 0.01 and of \<open>[0, 20)\<close> when it does not.
\<close>

theorem ToQuestion_age:
  "ToQuestion db ft r = Inr (q, r') \<Longrightarrow>
     (MeanAge ft > 0 \<and> StdDevAge ft > 0 \<longrightarrow>
        Age q = max 0 (int_of_float64
                         (add64 (mul64 (round64 (shd (normal r))) (float64_of_int (StdDevAge ft)))
                                (float64_of_int (MeanAge ft)))) \<and>
        0 \<le> Age q \<and>
        (\<forall>x. add64 (mul64 (round64 (shd (normal r))) (float64_of_int (StdDevAge ft)))
                   (float64_of_int (MeanAge ft)) = Fin x \<and> 0 \<le> x \<and> x < 2 ^ 63 \<longrightarrow>
             Age q = \<lfloor>x\<rfloor>) \<and>
        (\<forall>x. add64 (mul64 (round64 (shd (normal r))) (float64_of_int (StdDevAge ft)))
                   (float64_of_int (MeanAge ft)) = Fin x \<and> x < 0 \<longrightarrow>
             Age q = 0)) \<and>
     (\<not> (MeanAge ft > 0 \<and> StdDevAge ft > 0) \<longrightarrow>
        (\<exists>r2. randomAge (r\<lparr>uniform := sdrop (length (Problems ft)) (uniform r)\<rparr>) = Inr (Age q, r2)) \<and>
        (unit24 (uniform r !! length (Problems ft)) > 0.01 \<longrightarrow> 20 \<le> Age q \<and> Age q < 100) \<and>
        (\<not> unit24 (uniform r !! length (Problems ft)) > 0.01 \<longrightarrow> 0 \<le> Age q \<and> Age q < 20))"
proof -
  let ?F = "add64 (mul64 (round64 (shd (normal r))) (float64_of_int (StdDevAge ft)))
                  (float64_of_int (MeanAge ft))"
  assume a: "ToQuestion db ft r = Inr (q, r')"
  then obtain fs r1 where l: "findingsLoop db (Problems ft) r = Inr (fs, r1)"
    and age: "Age q = (if MeanAge ft > 0 \<and> StdDevAge ft > 0
                  then max 0 (int_of_float64
                                (add64 (mul64 (round64 (shd (normal r1))) (float64_of_int (StdDevAge ft)))
                                       (float64_of_int (MeanAge ft))))
                  else (if unit24 (shd (uniform r1)) > 0.01 then int (uniform r1 !! 1) mod 80 + 20
                        else int (uniform r1 !! 1) mod 20))"
    by (rule ToQuestion_Inr)
  from findingsLoop_rng[OF l] have r1: "r1 = r\<lparr>uniform := sdrop (length (Problems ft)) (uniform r)\<rparr>" .
  have n: "normal r1 = normal r" and u: "shd (uniform r1) = uniform r !! length (Problems ft)"
    by (simp_all add: r1)
  show ?thesis
  proof (cases "MeanAge ft > 0 \<and> StdDevAge ft > 0")
    case True
    with age n have eq: "Age q = max 0 (int_of_float64 ?F)" by simp
    have pos: "\<forall>x. ?F = Fin x \<and> 0 \<le> x \<and> x < 2 ^ 63 \<longrightarrow> Age q = \<lfloor>x\<rfloor>"
    proof (intro allI impI)
      fix x :: real
      assume h: "?F = Fin x \<and> 0 \<le> x \<and> x < 2 ^ 63"
      then have "0 \<le> \<lfloor>x\<rfloor>" by simp
      moreover from h have "\<lfloor>x\<rfloor> < 2 ^ 63" by (simp add: floor_less_iff)
      ultimately show "Age q = \<lfloor>x\<rfloor>" using h eq by (simp add: int_of_float64_def)
    qed
    have neg: "\<forall>x. ?F = Fin x \<and> x < 0 \<longrightarrow> Age q = 0"
    proof (intro allI impI)
      fix x :: real
      assume h: "?F = Fin x \<and> x < 0"
      then have "\<lceil>x\<rceil> \<le> 0" by (simp add: ceiling_le_iff)
      with h eq show "Age q = 0" by (simp add: int_of_float64_def Let_def)
    qed
    from True eq pos neg show ?thesis by simp
  next
    case False
    then have "(MeanAge ft > 0 \<and> StdDevAge ft > 0) = False" by blast
    with age have age': "Age q = (if unit24 (shd (uniform r1)) > 0.01 then int (uniform r1 !! 1) mod 80 + 20
                        else int (uniform r1 !! 1) mod 20)"
      by (simp only: if_False)
    have "randomAge r1 = Inr (Age q, r1\<lparr>uniform := sdrop 2 (uniform r1)\<rparr>)"
      by (simp only: randomAge_eq age')
    moreover have "unit24 (uniform r !! length (Problems ft)) > 0.01 \<longrightarrow> 20 \<le> Age q \<and> Age q < 100"
      using age' u by simp
    moreover have "\<not> unit24 (uniform r !! length (Problems ft)) > 0.01 \<longrightarrow> 0 \<le> Age q \<and> Age q < 20"
      using age' u by simp
    ultimately show ?thesis using False r1 by blast
  qed
qed


theorem ToQuestion_age_witness:
  "ToQuestion (exampleDb oneChild noParents ownFinding) (exampleTruth NoSexBias 60 20)
       (constRng 8388608 (7881299347898367 / 2 ^ 51)) =
     Inr (exampleRecord 130 Male, constRng 8388608 (7881299347898367 / 2 ^ 51)) \<and>
   0 \<le> Age (exampleRecord 130 Male) \<and>
   add64 (mul64 (round64 (7881299347898367 / 2 ^ 51)) (float64_of_int 20)) (float64_of_int 60) = Fin 130 \<and>
   ToQuestion (exampleDb oneChild noParents ownFinding) (exampleTruth NoSexBias 60 10)
       (constRng 8388608 0.37) =
     Inr (exampleRecord 63 Male, constRng 8388608 0.37) \<and>
   add64 (mul64 (round64 0.37) (float64_of_int 10)) (float64_of_int 60) =
     Fin (4482489004117197 / 2 ^ 46) \<and>
   \<lfloor>4482489004117197 / 2 ^ 46 :: real\<rfloor> = 63 \<and>
   ToQuestion (exampleDb oneChild noParents ownFinding) (exampleTruth NoSexBias 60 10)
       (constRng 8388608 (- 7)) =
     Inr (exampleRecord 0 Male, constRng 8388608 (- 7)) \<and>
   add64 (mul64 (round64 (- 7)) (float64_of_int 10)) (float64_of_int 60) = Fin (- 10) \<and>
   ToQuestion (exampleDb oneChild noParents ownFinding) (exampleTruth NoSexBias 0 20)
       (constRng 8388608 (- 7)) =
     Inr (exampleRecord 68 Male, constRng 8388608 (- 7)) \<and>
   unit24 8388608 > 0.01 \<and> 20 \<le> Age (exampleRecord 68 Male) \<and> Age (exampleRecord 68 Male) < 100"
proof -
  have e1: "ToQuestion (exampleDb oneChild noParents ownFinding) (exampleTruth NoSexBias 60 20)
       (constRng 8388608 (7881299347898367 / 2 ^ 51)) =
     Inr (exampleRecord 130 Male, constRng 8388608 (7881299347898367 / 2 ^ 51))"
    by (simp add: ToQuestion_example f64)
  have e2: "ToQuestion (exampleDb oneChild noParents ownFinding) (exampleTruth NoSexBias 60 10)
       (constRng 8388608 0.37) =
     Inr (exampleRecord 63 Male, constRng 8388608 0.37)"
    by (simp add: ToQuestion_example f64)
  have e3: "ToQuestion (exampleDb oneChild noParents ownFinding) (exampleTruth NoSexBias 60 10)
       (constRng 8388608 (- 7)) =
     Inr (exampleRecord 0 Male, constRng 8388608 (- 7))"
    by (simp add: ToQuestion_example f64)
  have e4: "ToQuestion (exampleDb oneChild noParents ownFinding) (exampleTruth NoSexBias 0 20)
       (constRng 8388608 (- 7)) =
     Inr (exampleRecord 68 Male, constRng 8388608 (- 7))"
    by (simp add: ToQuestion_example)
  have fl: "\<lfloor>4482489004117197 / 2 ^ 46 :: real\<rfloor> = 63" by simp
  have x: "add64 (mul64 (round64 (7881299347898367 / 2 ^ 51)) (float64_of_int 20)) (float64_of_int 60) = Fin 130 \<and>
    add64 (mul64 (round64 0.37) (float64_of_int 10)) (float64_of_int 60) = Fin (4482489004117197 / 2 ^ 46) \<and>
    add64 (mul64 (round64 (- 7)) (float64_of_int 10)) (float64_of_int 60) = Fin (- 10)"
    by (simp add: f64)
  have y: "unit24 8388608 > 0.01"
    by (simp add: unit24_def)
  from ToQuestion_age[OF e1] have a1: "0 \<le> Age (exampleRecord 130 Male)"
    by (simp add: exampleTruth_def)
  from ToQuestion_age[OF e4] y have a4: "20 \<le> Age (exampleRecord 68 Male)" "Age (exampleRecord 68 Male) < 100"
    by (simp_all add: exampleTruth_def constRng_def)
  show ?thesis
    by (intro conjI e1 e2 e3 e4 fl a1 a4 x[THEN conjunct1] x[THEN conjunct2, THEN conjunct1]
        x[THEN conjunct2, THEN conjunct2] y)
qed


text \<open>
  C9. Whenever \<open>ToQuestion\<close> returns a record: a truth biased to men gives a male
  record, a truth biased to women a female record, and a truth without bias gives male
  or female by one \<open>Float32\<close> draw compared with 0.5, that is, by whether the raw value
  drawn falls in the upper or in the lower half of the \<open>2^24\<close> values.
\<close>

theorem ToQuestion_sex:
  "ToQuestion db ft r = Inr (q, r') \<Longrightarrow>
     (SexBias ft = MenOnly \<longrightarrow> Sex q = Male) \<and>
     (SexBias ft = FemaleOnly \<longrightarrow> Sex q = Female) \<and>
     (SexBias ft = NoSexBias \<longrightarrow>
        Sex q = (if unit24 (uniform r !! (length (Problems ft) + 2)) \<ge> 0.5 then Male else Female) \<and>
        Sex q = (if 2 ^ 23 \<le> (uniform r !! (length (Problems ft) + 2)) mod 2 ^ 24 then Male else Female))"
proof -
  assume a: "ToQuestion db ft r = Inr (q, r')"
  then obtain fs r1 where l: "findingsLoop db (Problems ft) r = Inr (fs, r1)"
    and sex: "Sex q = fst (RandomSex (SexBias ft) (r1\<lparr>uniform := sdrop 2 (uniform r1)\<rparr>))"
    by (rule ToQuestion_Inr)
  from findingsLoop_rng[OF l] have r1: "r1 = r\<lparr>uniform := sdrop (length (Problems ft)) (uniform r)\<rparr>" .
  have u: "shd (sdrop 2 (uniform r1)) = uniform r !! (length (Problems ft) + 2)"
    by (simp add: r1 sdrop_snth add.commute)
  show ?thesis
    using sex u unit24_half[of "uniform r !! (length (Problems ft) + 2)"]
    by (cases "SexBias ft") (simp_all add: RandomSex_def Float32_def split: prod.splits)
qed

theorem ToQuestion_sex_witness:
  "ToQuestion (exampleDb oneChild noParents ownFinding) (exampleTruth MenOnly 60 10) (constRng 8388608 (- 7)) =
     Inr (exampleRecord 0 Male, constRng 8388608 (- 7)) \<and>
   SexBias (exampleTruth MenOnly 60 10) = MenOnly \<and> Sex (exampleRecord 0 Male) = Male \<and>
   ToQuestion (exampleDb oneChild noParents ownFinding) (exampleTruth FemaleOnly 60 10) (constRng 8388608 (- 7)) =
     Inr (exampleRecord 0 Female, constRng 8388608 (- 7)) \<and>
   SexBias (exampleTruth FemaleOnly 60 10) = FemaleOnly \<and> Sex (exampleRecord 0 Female) = Female \<and>
   ToQuestion (exampleDb oneChild noParents ownFinding) (exampleTruth NoSexBias 60 10) (constRng 8388608 (- 7)) =
     Inr (exampleRecord 0 Male, constRng 8388608 (- 7)) \<and>
   SexBias (exampleTruth NoSexBias 60 10) = NoSexBias \<and> unit24 8388608 \<ge> 0.5"
proof -
  have e1: "ToQuestion (exampleDb oneChild noParents ownFinding) (exampleTruth MenOnly 60 10) (constRng 8388608 (- 7)) =
     Inr (exampleRecord 0 Male, constRng 8388608 (- 7))"
    by (simp add: ToQuestion_example f64)
  have e2: "ToQuestion (exampleDb oneChild noParents ownFinding) (exampleTruth FemaleOnly 60 10) (constRng 8388608 (- 7)) =
     Inr (exampleRecord 0 Female, constRng 8388608 (- 7))"
    by (simp add: ToQuestion_example f64)
  have e3: "ToQuestion (exampleDb oneChild noParents ownFinding) (exampleTruth NoSexBias 60 10) (constRng 8388608 (- 7)) =
     Inr (exampleRecord 0 Male, constRng 8388608 (- 7))"
    by (simp add: ToQuestion_example f64)
  from ToQuestion_sex[OF e1] ToQuestion_sex[OF e2] ToQuestion_sex[OF e3] e1 e2 e3 show ?thesis
    by (simp add: exampleTruth_def exampleRecord_def unit24_def)
qed

section \<open>Facts about truth construction\<close>

lemma randomDuration_eq:
  "randomDuration r =
     Inr ([Acute, Subacute, Chronic] ! (shd (uniform r) mod 3), r\<lparr>uniform := stl (uniform r)\<rparr>)"
proof -
  have m: "nat (int (shd (uniform r)) mod 3) = shd (uniform r) mod 3"
    by (simp add: nat_mod_distrib)
  have b: "shd (uniform r) mod 3 < 3" by simp
  have "[Acute, Subacute, Chronic, Episodic] ! (shd (uniform r) mod 3) =
        [Acute, Subacute, Chronic] ! (shd (uniform r) mod 3)"
    using b by (simp add: nth_Cons' )
  then show ?thesis
    by (simp add: randomDuration_def Intn_def index_def m)
qed

lemma randomSexBias_eq:
  "randomSexBias r =
     Inr ([MenOnly, FemaleOnly] ! (shd (uniform r) mod 2), r\<lparr>uniform := stl (uniform r)\<rparr>)"
proof -
  have m: "nat (int (shd (uniform r)) mod 2) = shd (uniform r) mod 2"
    by (simp add: nat_mod_distrib)
  have b: "shd (uniform r) mod 2 < 2" by simp
  have "[MenOnly, FemaleOnly, NoSexBias] ! (shd (uniform r) mod 2) =
        [MenOnly, FemaleOnly] ! (shd (uniform r) mod 2)"
    using b by (simp add: nth_Cons')
  then show ?thesis
    by (simp add: randomSexBias_def Intn_def index_def m)
qed

lemma nth3_mem: "[a, b, c] ! (x mod 3) \<in> {a, b, c}"
proof -
  have "x mod 3 = 0 \<or> x mod 3 = 1 \<or> x mod 3 = 2" by presburger
  then show ?thesis by auto
qed

lemma nth2_mem: "[a, b] ! (x mod 2) \<in> {a, b}"
proof -
  have "x mod 2 = 0 \<or> x mod 2 = 1" by presburger
  then show ?thesis by auto
qed

lemma drawProblems_Inr:
  "drawProblems symptoms tot k r = Inr (ps, r') \<Longrightarrow>
     length ps = k \<and>
     (\<forall>p \<in> set ps.
        (\<exists>i. 0 \<le> i \<and> i < tot - 1 \<and> i < int (length symptoms) \<and> Problem p = symptoms ! nat i) \<and>
        Duration p \<in> {Acute, Subacute, Chronic} \<and> 0 \<le> Probability p \<and> Probability p < 1)"
proof (induction k arbitrary: r ps r')
  case 0
  then show ?case by simp
next
  case (Suc k)
  from Suc.prems obtain i r1 symptom rest r4 where
    i: "Intn (tot - 1) r = Inr (i, r1)" and
    s: "index symptoms i = Inr symptom" and
    rest: "drawProblems symptoms tot k (r1\<lparr>uniform := sdrop 2 (uniform r1)\<rparr>) = Inr (rest, r4)" and
    ps: "ps = \<lparr>Problem = symptom, Duration = [Acute, Subacute, Chronic] ! (shd (uniform r1) mod 3),
               Probability = unit53 (shd (stl (uniform r1)))\<rparr> # rest"
    by (auto simp: randomDuration_eq Float64_def numeral_2_eq_2 split: sum.splits prod.splits)
  from Intn_Inr[OF i] have ib: "0 \<le> i" "i < tot - 1" by simp_all
  from s have sy: "i < int (length symptoms)" "symptom = symptoms ! nat i"
    by (auto simp: index_def split: if_splits)
  from Suc.IH[OF rest] ib sy ps nth3_mem[of Acute Subacute Chronic "shd (uniform r1)"]
    unit53_range[of "shd (stl (uniform r1))"]
  show ?case by auto
qed

lemma generateTruth_cases:
  assumes "generateTruth db diagnosis r = Inr (res, r')"
  obtains (empty) "relatedBySiteForDiagnosis db diagnosis = Inr []" "res = (None, False)" "r' = r"
  | (found) symptoms parents n r1 problems r2 meanAge r3 bias r4 s where
      "relatedBySiteForDiagnosis db diagnosis = Inr symptoms" "symptoms \<noteq> []"
      "Intn (min 30 (int (length symptoms))) r = Inr (n, r1)"
      "GetAllParents db diagnosis = Inr parents"
      "drawProblems symptoms (int (length symptoms)) (nat (1 + n)) r1 = Inr (problems, r2)"
      "randomAge r2 = Inr (meanAge, r3)"
      "randomSexBias r3 = Inr (bias, r4)"
      "Intn (min meanAge 20) r4 = Inr (s, r')"
      "res = (Some \<lparr>Diagnosis = diagnosis, tParents = parents, Problems = problems, SexBias = bias,
                     MeanAge = meanAge, StdDevAge = s\<rparr>, True)"
proof (cases "relatedBySiteForDiagnosis db diagnosis")
  case (Inl e)
  with assms show ?thesis by (simp add: generateTruth_def checkError_def)
next
  case (Inr symptoms)
  show ?thesis
  proof (cases "symptoms = []")
    case True
    with Inr assms empty show ?thesis by (simp add: generateTruth_def checkError_def)
  next
    case False
    with Inr assms found[OF Inr False] show ?thesis
      by (simp add: generateTruth_def checkError_def Let_def split: sum.splits prod.splits)
  qed
qed

lemma discovery_example:
  "relatedBySiteForDiagnosis (exampleDb oneChild parents ownFinding) d = Inr [conceptOf 310, conceptOf 311]"
  by (simp add: relatedBySiteForDiagnosis_def exampleDb_def oneChild_def ownFinding_def conceptOf_def)

lemma exampleDb_GetAllParents: "GetAllParents (exampleDb children parents findings) = parents"
  by (simp add: exampleDb_def)

lemma generateTruth_example:
  "generateTruth (exampleDb oneChild noParents ownFinding) (conceptOf 1) (constRng 8388608 0) =
     Inr ((Some generatedTruth, True), constRng 8388608 0)"
  by (simp add: generateTruth_def discovery_example checkError_def exampleDb_GetAllParents noParents_def
      constRng_def Intn_def randomAge_def Float32_def Float64_def unit24_def unit53_def
      randomDuration_def randomSexBias_def index_def generatedTruth_def)

text \<open>
  C3. The uniform draws of truth construction leave out the last option.
  \<open>randomDuration\<close> always returns, and returns acute, subacute or chronic;
  \<open>randomSexBias\<close> always returns, and returns men-only or female-only. Hence, in every
  truth that \<open>generateTruth\<close> returns, each problem is the candidate at an index below
  the last one (and differs from the last candidate when the candidates are distinct),
  no duration is episodic or unknown, and the sex bias is never no-bias.
\<close>

theorem truth_draws_exclude_last_option:
  "(\<exists>d r1. randomDuration r = Inr (d, r1) \<and> d \<in> {Acute, Subacute, Chronic}) \<and>
   (\<exists>b r1. randomSexBias r = Inr (b, r1) \<and> b \<in> {MenOnly, FemaleOnly}) \<and>
   (\<forall>t found r' symptoms.
      generateTruth db diagnosis r = Inr ((Some t, found), r') \<and>
      relatedBySiteForDiagnosis db diagnosis = Inr symptoms \<longrightarrow>
        (\<forall>p \<in> set (Problems t).
           (\<exists>i. i < length symptoms - 1 \<and> Problem p = symptoms ! i) \<and>
           (distinct symptoms \<longrightarrow> Problem p \<noteq> last symptoms) \<and>
           Duration p \<in> {Acute, Subacute, Chronic} \<and>
           Duration p \<noteq> Episodic \<and> Duration p \<noteq> Unknown) \<and>
        SexBias t \<in> {MenOnly, FemaleOnly} \<and> SexBias t \<noteq> NoSexBias)"
proof (intro conjI allI impI)
  show "\<exists>d r1. randomDuration r = Inr (d, r1) \<and> d \<in> {Acute, Subacute, Chronic}"
    using nth3_mem[of Acute Subacute Chronic "shd (uniform r)"] by (simp add: randomDuration_eq)
  show "\<exists>b r1. randomSexBias r = Inr (b, r1) \<and> b \<in> {MenOnly, FemaleOnly}"
    using nth2_mem[of MenOnly FemaleOnly "shd (uniform r)"] by (simp add: randomSexBias_eq)
next
  fix t found r' symptoms
  assume a: "generateTruth db diagnosis r = Inr ((Some t, found), r') \<and>
      relatedBySiteForDiagnosis db diagnosis = Inr symptoms"
  then have g: "generateTruth db diagnosis r = Inr ((Some t, found), r')"
    and d: "relatedBySiteForDiagnosis db diagnosis = Inr symptoms" by simp_all
  from g obtain n r1 r2 r3 bias r4 where
    dp: "drawProblems symptoms (int (length symptoms)) (nat (1 + n)) r1 = Inr (Problems t, r2)" and
    sb: "randomSexBias r3 = Inr (bias, r4)" and b: "SexBias t = bias"
    using d by (cases rule: generateTruth_cases) auto
  from sb nth2_mem[of MenOnly FemaleOnly "shd (uniform r3)"]
  have bias: "bias \<in> {MenOnly, FemaleOnly}" by (simp add: randomSexBias_eq)
  with b show "SexBias t \<in> {MenOnly, FemaleOnly}" by simp
  from bias b show "SexBias t \<noteq> NoSexBias" by auto
  show "\<forall>p \<in> set (Problems t).
           (\<exists>i. i < length symptoms - 1 \<and> Problem p = symptoms ! i) \<and>
           (distinct symptoms \<longrightarrow> Problem p \<noteq> last symptoms) \<and>
           Duration p \<in> {Acute, Subacute, Chronic} \<and>
           Duration p \<noteq> Episodic \<and> Duration p \<noteq> Unknown"
  proof
    fix p
    assume p: "p \<in> set (Problems t)"
    with drawProblems_Inr[OF dp] obtain i where
      i: "0 \<le> i" "i < int (length symptoms) - 1" "Problem p = symptoms ! nat i" and
      du: "Duration p \<in> {Acute, Subacute, Chronic}"
      by blast
    from i have lt: "nat i < length symptoms - 1" by linarith
    have "distinct symptoms \<longrightarrow> Problem p \<noteq> last symptoms"
    proof
      assume di: "distinct symptoms"
      from lt have ne: "symptoms \<noteq> []" by auto
      then have "last symptoms = symptoms ! (length symptoms - 1)" by (rule last_conv_nth)
      moreover from lt ne di have "symptoms ! nat i \<noteq> symptoms ! (length symptoms - 1)"
        by (simp add: nth_eq_iff_index_eq)
      ultimately show "Problem p \<noteq> last symptoms" using i by simp
    qed
    with lt i du show "(\<exists>i. i < length symptoms - 1 \<and> Problem p = symptoms ! i) \<and>
           (distinct symptoms \<longrightarrow> Problem p \<noteq> last symptoms) \<and>
           Duration p \<in> {Acute, Subacute, Chronic} \<and>
           Duration p \<noteq> Episodic \<and> Duration p \<noteq> Unknown"
      by auto
  qed
qed

theorem truth_draws_exclude_last_option_witness:
  "generateTruth (exampleDb oneChild noParents ownFinding) (conceptOf 1) (constRng 8388608 0) =
     Inr ((Some generatedTruth, True), constRng 8388608 0) \<and>
   relatedBySiteForDiagnosis (exampleDb oneChild noParents ownFinding) (conceptOf 1) =
     Inr [conceptOf 310, conceptOf 311] \<and>
   map Problem (Problems generatedTruth) = [conceptOf 310] \<and>
   map Duration (Problems generatedTruth) = [Chronic] \<and>
   SexBias generatedTruth = MenOnly \<and> SexBias generatedTruth \<noteq> NoSexBias"
proof -
  note e = conjI[OF generateTruth_example discovery_example[of noParents "conceptOf 1"]]
  from truth_draws_exclude_last_option[THEN conjunct2, THEN conjunct2, rule_format, OF e] e
  show ?thesis by (simp add: generatedTruth_def)
qed

lemma discovery_none:
  "relatedBySiteForDiagnosis (exampleDb oneChild parents noFinding) d = Inr []"
  by (simp add: relatedBySiteForDiagnosis_def exampleDb_def oneChild_def noFinding_def conceptOf_def)

lemma discovery_single:
  "relatedBySiteForDiagnosis (exampleDb oneChild parents sameFinding) d = Inr [conceptOf 300]"
  by (simp add: relatedBySiteForDiagnosis_def exampleDb_def oneChild_def sameFinding_def conceptOf_def)

lemma generateTruth_failingParents:
  "generateTruth (exampleDb oneChild failingParents ownFinding) (conceptOf 1) (constRng 8388608 0) =
     Inl (PanicError (Error ''no parents''))"
  by (simp add: generateTruth_def discovery_example checkError_def exampleDb_GetAllParents
      failingParents_def constRng_def Intn_def)

text \<open>
  C4 (as amended). \<open>generateTruth\<close> aborts with the ontology's error when discovery
  fails, and when the candidates are not empty and the lookup of the diagnosis's
  ancestors fails. When discovery yields no candidate it returns no truth and
  \<open>found = False\<close>, without a draw. Whenever it returns, it returns no truth and
  \<open>found = False\<close> exactly when discovery yielded no candidate, and otherwise
  \<open>found = True\<close> with a truth whose problems number between 1 and
  \<open>min 30 (length candidates)\<close>.
\<close>

theorem generateTruth_found_iff_candidates:
  "(\<forall>e. relatedBySiteForDiagnosis db diagnosis = Inl e \<longrightarrow>
        generateTruth db diagnosis r = Inl (PanicError e)) \<and>
   (relatedBySiteForDiagnosis db diagnosis = Inr [] \<longrightarrow>
        generateTruth db diagnosis r = Inr ((None, False), r)) \<and>
   (\<forall>symptoms e. relatedBySiteForDiagnosis db diagnosis = Inr symptoms \<and> symptoms \<noteq> [] \<and>
        GetAllParents db diagnosis = Inl e \<longrightarrow>
        generateTruth db diagnosis r = Inl (PanicError e)) \<and>
   (\<forall>symptoms res r'. relatedBySiteForDiagnosis db diagnosis = Inr symptoms \<and>
        generateTruth db diagnosis r = Inr (res, r') \<longrightarrow>
        (res = (None, False) \<longleftrightarrow> symptoms = []) \<and>
        (fst res = None \<longleftrightarrow> symptoms = []) \<and>
        (snd res = False \<longleftrightarrow> symptoms = []) \<and>
        (symptoms \<noteq> [] \<longrightarrow>
           (\<exists>t. res = (Some t, True) \<and> 1 \<le> length (Problems t) \<and>
                length (Problems t) \<le> min 30 (length symptoms))))"
proof (intro conjI allI impI)
  fix e
  assume "relatedBySiteForDiagnosis db diagnosis = Inl e"
  then show "generateTruth db diagnosis r = Inl (PanicError e)"
    by (simp add: generateTruth_def checkError_def)
next
  assume "relatedBySiteForDiagnosis db diagnosis = Inr []"
  then show "generateTruth db diagnosis r = Inr ((None, False), r)"
    by (simp add: generateTruth_def checkError_def)
next
  fix symptoms e
  assume "relatedBySiteForDiagnosis db diagnosis = Inr symptoms \<and> symptoms \<noteq> [] \<and>
        GetAllParents db diagnosis = Inl e"
  then have d: "relatedBySiteForDiagnosis db diagnosis = Inr symptoms" and ne: "symptoms \<noteq> []"
    and p: "GetAllParents db diagnosis = Inl e" by simp_all
  from ne have pos: "0 < int (length symptoms)" "0 < min 30 (int (length symptoms))" by simp_all
  show "generateTruth db diagnosis r = Inl (PanicError e)"
    by (simp add: generateTruth_def checkError_def d p ne pos Intn_pos Let_def)
next
  fix symptoms res r'
  assume a: "relatedBySiteForDiagnosis db diagnosis = Inr symptoms \<and>
        generateTruth db diagnosis r = Inr (res, r')"
  then have d: "relatedBySiteForDiagnosis db diagnosis = Inr symptoms"
    and g: "generateTruth db diagnosis r = Inr (res, r')" by simp_all
  from g have
    "(symptoms = [] \<and> res = (None, False)) \<or>
     (symptoms \<noteq> [] \<and> (\<exists>t. res = (Some t, True) \<and> 1 \<le> length (Problems t) \<and>
                length (Problems t) \<le> min 30 (length symptoms)))"
  proof (cases rule: generateTruth_cases)
    case empty
    with d show ?thesis by simp
  next
    case (found symptoms' parents n r1 problems r2 meanAge r3 bias r4 s)
    with d have eq: "symptoms' = symptoms" by simp
    from Intn_Inr[OF found(3)] have n: "0 \<le> n" "n < min 30 (int (length symptoms))"
      by (simp_all add: eq)
    from drawProblems_Inr[OF found(5)] have "length problems = nat (1 + n)" by simp
    with n have "1 \<le> length problems" "length problems \<le> min 30 (length symptoms)"
      by linarith+
    with found eq show ?thesis by simp
  qed
  then show "(res = (None, False) \<longleftrightarrow> symptoms = [])" "(fst res = None \<longleftrightarrow> symptoms = [])"
    "(snd res = False \<longleftrightarrow> symptoms = [])" by auto
  assume "symptoms \<noteq> []"
  with \<open>_ \<or> _\<close> show "\<exists>t. res = (Some t, True) \<and> 1 \<le> length (Problems t) \<and>
                length (Problems t) \<le> min 30 (length symptoms)" by blast
qed

theorem generateTruth_found_iff_candidates_witness:
  "relatedBySiteForDiagnosis (exampleDb oneChild noParents noFinding) (conceptOf 1) = Inr [] \<and>
   generateTruth (exampleDb oneChild noParents noFinding) (conceptOf 1) (constRng 8388608 0) =
     Inr ((None, False), constRng 8388608 0) \<and>
   relatedBySiteForDiagnosis (exampleDb oneChild noParents ownFinding) (conceptOf 1) =
     Inr [conceptOf 310, conceptOf 311] \<and>
   generateTruth (exampleDb oneChild noParents ownFinding) (conceptOf 1) (constRng 8388608 0) =
     Inr ((Some generatedTruth, True), constRng 8388608 0) \<and>
   1 \<le> length (Problems generatedTruth) \<and>
   length (Problems generatedTruth) \<le> min 30 (length [conceptOf 310, conceptOf 311])"
proof -
  note d0 = discovery_none[of noParents "conceptOf 1"]
  note d2 = discovery_example[of noParents "conceptOf 1"]
  note g = generateTruth_example
  from generateTruth_found_iff_candidates[THEN conjunct2, THEN conjunct1, rule_format, OF d0]
    generateTruth_found_iff_candidates[THEN conjunct2, THEN conjunct2, THEN conjunct2, rule_format,
      OF conjI[OF d2 g]]
    d0 d2 g
  show ?thesis by simp
qed

text \<open>
  With two candidates discovered and the lookup of the diagnosis's ancestors failing,
  \<open>generateTruth\<close> returns neither \<open>found = False\<close> nor a truth: \<open>checkError\<close> panics.
\<close>

theorem generateTruth_aborts_with_candidates:
  "relatedBySiteForDiagnosis (exampleDb oneChild failingParents ownFinding) (conceptOf 1) =
     Inr [conceptOf 310, conceptOf 311] \<and>
   generateTruth (exampleDb oneChild failingParents ownFinding) (conceptOf 1) (constRng 8388608 0) =
     Inl (PanicError (Error ''no parents''))"
  by (simp add: discovery_example generateTruth_failingParents)

lemma toFakeTruth_ages:
  "toFakeTruth db et = Inr t \<Longrightarrow> MeanAge t = et_meanAge et \<and> StdDevAge t = et_stdDevAge et \<and>
     SexBias t = NoSexBias"
  by (auto simp: toFakeTruth_def split: sum.splits)

text \<open>
  C6 (as amended). A truth returned by \<open>generateTruth\<close> has a standard deviation of
  at least 0 and below \<open>min meanAge 20\<close>. \<open>toFakeTruth\<close> copies the mean age and the
  standard deviation of the explicit truth unchanged; for the myocardial-infarction
  literal (60 and 20) the truth it returns meets the cap.
\<close>

theorem stdDevAge_cap:
  "(\<forall>t found r'. generateTruth db diagnosis r = Inr ((Some t, found), r') \<longrightarrow>
      0 \<le> StdDevAge t \<and> StdDevAge t < min (MeanAge t) 20 \<and> StdDevAge t \<le> min (MeanAge t) 20) \<and>
   (\<forall>t. toFakeTruth db et = Inr t \<longrightarrow>
      MeanAge t = et_meanAge et \<and> StdDevAge t = et_stdDevAge et) \<and>
   (\<forall>t. MyocardialInfarctionTruth db = Inr t \<longrightarrow> StdDevAge t \<le> min (MeanAge t) 20)"
proof (intro conjI allI impI)
  fix t found r'
  assume g: "generateTruth db diagnosis r = Inr ((Some t, found), r')"
  then obtain meanAge s r4 where i: "Intn (min meanAge 20) r4 = Inr (s, r')"
    and m: "MeanAge t = meanAge" and s: "StdDevAge t = s"
    by (cases rule: generateTruth_cases) auto
  from Intn_Inr[OF i] m s
  show "0 \<le> StdDevAge t" "StdDevAge t < min (MeanAge t) 20" "StdDevAge t \<le> min (MeanAge t) 20"
    by simp_all
next
  fix t
  assume "toFakeTruth db et = Inr t"
  from toFakeTruth_ages[OF this]
  show "MeanAge t = et_meanAge et" "StdDevAge t = et_stdDevAge et" by simp_all
next
  fix t
  assume "MyocardialInfarctionTruth db = Inr t"
  then have "toFakeTruth db myocardialInfarction = Inr t" by (simp add: MyocardialInfarctionTruth_def)
  from toFakeTruth_ages[OF this]
  show "StdDevAge t \<le> min (MeanAge t) 20" by (simp add: myocardialInfarction_def)
qed

theorem stdDevAge_cap_witness:
  "generateTruth (exampleDb oneChild noParents ownFinding) (conceptOf 1) (constRng 8388608 0) =
     Inr ((Some generatedTruth, True), constRng 8388608 0) \<and>
   StdDevAge generatedTruth = 8 \<and> MeanAge generatedTruth = 68 \<and>
   StdDevAge generatedTruth < min (MeanAge generatedTruth) 20"
proof -
  note g = generateTruth_example
  from stdDevAge_cap[THEN conjunct1, rule_format, OF g] g
  show ?thesis by (simp add: generatedTruth_def)
qed

text \<open>
  \<open>toFakeTruth\<close> on an explicit truth of mean age 10 and standard deviation 50 returns a
  truth whose standard deviation is 50, above \<open>min 10 20\<close>.
\<close>

theorem explicit_truth_exceeds_cap:
  "toFakeTruth (exampleDb oneChild noParents ownFinding) uncapped =
     Inr \<lparr>Diagnosis = conceptOf 1, tParents = [], Problems = [], SexBias = NoSexBias,
          MeanAge = 10, StdDevAge = 50\<rparr> \<and>
   \<not> StdDevAge \<lparr>Diagnosis = conceptOf 1, tParents = [], Problems = [], SexBias = NoSexBias,
          MeanAge = 10, StdDevAge = 50\<rparr>
      \<le> min (MeanAge \<lparr>Diagnosis = conceptOf 1, tParents = [], Problems = [], SexBias = NoSexBias,
          MeanAge = 10, StdDevAge = 50\<rparr>) 20"
  by (simp add: toFakeTruth_def uncapped_def exampleDb_def noParents_def)

text \<open>A diagnosis with exactly one candidate makes \<open>generateTruth\<close> abort, whatever is drawn.\<close>

lemma generateTruth_single_candidate:
  assumes "relatedBySiteForDiagnosis db diagnosis = Inr [c]"
  shows "\<exists>p. generateTruth db diagnosis r = Inl p"
  using assms
  by (cases "GetAllParents db diagnosis")
     (simp_all add: generateTruth_def checkError_def Intn_def)

text \<open>
  C2. \<open>generateTruth\<close> at the two inputs of the claim. On a diagnosis with the single
  candidate 300 the symptom draw is \<open>Intn 0\<close> and the call panics. On a diagnosis with
  two candidates and a random source whose raw draws are all 0, \<open>randomAge\<close> returns 0,
  the standard-deviation draw is \<open>Intn 0\<close> and the call panics.
\<close>

theorem generateTruth_panics:
  "relatedBySiteForDiagnosis (exampleDb oneChild noParents sameFinding) (conceptOf 1) = Inr [conceptOf 300] \<and>
   generateTruth (exampleDb oneChild noParents sameFinding) (conceptOf 1) (constRng 8388608 0) = Inl PanicIntn \<and>
   relatedBySiteForDiagnosis (exampleDb oneChild noParents ownFinding) (conceptOf 1) =
     Inr [conceptOf 310, conceptOf 311] \<and>
   randomAge (constRng 0 0) = Inr (0, constRng 0 0) \<and>
   generateTruth (exampleDb oneChild noParents ownFinding) (conceptOf 1) (constRng 0 0) = Inl PanicIntn"
  by (simp add: discovery_single discovery_example generateTruth_def checkError_def
      exampleDb_GetAllParents noParents_def constRng_def Intn_def randomAge_def Float32_def
      Float64_def unit24_def unit53_def randomDuration_def randomSexBias_def index_def)

section \<open>Discovery and the errors of the ontology\<close>

text \<open>The error of the first query, for the finding sites, is returned.\<close>

lemma relatedBySiteForDiagnosis_sites_error:
  "GetParentsOfKind dbs concept (FindingSite dbs) = Inl e \<Longrightarrow>
     relatedBySiteForDiagnosis dbs concept = Inl e"
  by (simp add: relatedBySiteForDiagnosis_def)

text \<open>
  C1. \<open>relatedBySiteForDiagnosis\<close> on an ontology whose \<open>FetchRecursiveChildren\<close> fails
  for the second region (111): the call returns no error but the candidates found under
  the first region only, where the same ontology without the failure yields two. On an
  ontology whose \<open>GetSiblings\<close> fails for the reference region, the call returns no
  error either, and candidates.
\<close>

theorem relatedBySiteForDiagnosis_suppresses_error:
  "FetchRecursiveChildren (exampleDb failingChildren noParents ownFinding) (conceptOf 111) =
     Inl (Error ''no children'') \<and>
   relatedBySiteForDiagnosis (exampleDb failingChildren noParents ownFinding) (conceptOf 1) =
     Inr [conceptOf 310] \<and>
   relatedBySiteForDiagnosis (exampleDb oneChild noParents ownFinding) (conceptOf 1) =
     Inr [conceptOf 310, conceptOf 311] \<and>
   FetchConcept siblingsFailing 51185008 = Inr (conceptOf 51185008) \<and>
   GetSiblings siblingsFailing (Some (conceptOf 51185008)) = Inl (Error ''no siblings'') \<and>
   relatedBySiteForDiagnosis siblingsFailing (conceptOf 1) = Inr [conceptOf 310, conceptOf 311]"
  by (simp add: relatedBySiteForDiagnosis_def siblingsFailing_def exampleDb_def failingChildren_def
      oneChild_def ownFinding_def conceptOf_def)

section \<open>Replication count\<close>

text \<open>
  C5. The count of \<open>GenerateFakeTruth\<close> at the scale factor \<open>- 1\<close>, a value the function
  accepts (it then keeps all diagnoses). With the prevalence 0.01 the product with
  10000 is the \<open>float64\<close> 100 and the count is \<open>5 + 100 * (- 1) = - 95\<close>: below 5, and no
  record is sampled. The larger prevalence 0.02 has the smaller count \<open>- 195\<close>. With
  the scale factors 3 and 1 the same expression gives 305, and 12 for the prevalence
  0.0007 (whose \<open>float64\<close> product with 10000 is 7).
\<close>

theorem replicationCount_negative_scale:
  "mul64 (round64 0.01) (Fin 10000) = Fin 100 \<and>
   replicationCount (round64 0.01) (- 1) = - 95 \<and>
   \<not> 5 \<le> replicationCount (round64 0.01) (- 1) \<and>
   questionsFor (exampleDb oneChild noParents ownFinding) (exampleTruth NoSexBias 60 10) (round64 0.01) (- 1)
     (constRng 8388608 0) = Inr ([], constRng 8388608 0) \<and>
   mul64 (round64 0.02) (Fin 10000) = Fin 200 \<and>
   replicationCount (round64 0.02) (- 1) = - 195 \<and>
   \<not> replicationCount (round64 0.01) (- 1) \<le> replicationCount (round64 0.02) (- 1) \<and>
   replicationCount (round64 0.01) 3 = 305 \<and>
   replicationCount (round64 0.0007) 1 = 12"
proof -
  show ?thesis
    by (simp add: replicationCount_def f64 wrap64_def questionsFor_def)
qed

section \<open>The explicit myocardial-infarction truth\<close>

text \<open>
  C10 (as amended). When the six concepts resolve and the lookup of the diagnosis's
  ancestors succeeds, \<open>MyocardialInfarctionTruth\<close> returns a truth whose diagnosis is
  the concept resolved for 22298006, with exactly five problems (the five resolved
  concepts, all acute, with probabilities 0.95, 0.70, 0.80, 0.55 and 0.60), no sex
  bias, mean age 60 and standard deviation 20. When one of the six identifiers does
  not resolve, it returns the error of such a lookup and no truth. When all six resolve
  and the lookup of the ancestors fails, it returns that error and no truth.
\<close>

theorem MyocardialInfarctionTruth_loads:
  "(FetchConcept db 22298006 = Inr d \<and> FetchConcept db 29857009 = Inr c1 \<and>
    FetchConcept db 267036007 = Inr c2 \<and> FetchConcept db 415690000 = Inr c3 \<and>
    FetchConcept db 426555006 = Inr c4 \<and> FetchConcept db 76388001 = Inr c5 \<and>
    GetAllParents db d = Inr ps \<longrightarrow>
      (\<exists>t. MyocardialInfarctionTruth db = Inr t \<and> Diagnosis t = d \<and> tParents t = ps \<and>
           length (Problems t) = 5 \<and>
           map Problem (Problems t) = [c1, c2, c3, c4, c5] \<and>
           map Probability (Problems t) = [0.95, 0.70, 0.80, 0.55, 0.60] \<and>
           map Duration (Problems t) = [Acute, Acute, Acute, Acute, Acute] \<and>
           SexBias t = NoSexBias \<and> MeanAge t = 60 \<and> StdDevAge t = 20)) \<and>
   ((\<exists>i \<in> set [22298006, 29857009, 267036007, 415690000, 426555006, 76388001].
        \<exists>e. FetchConcept db i = Inl e) \<longrightarrow>
      (\<exists>i \<in> set [22298006, 29857009, 267036007, 415690000, 426555006, 76388001].
        \<exists>e. FetchConcept db i = Inl e \<and> MyocardialInfarctionTruth db = Inl e)) \<and>
   (\<forall>e. FetchConcept db 22298006 = Inr d \<and> FetchConcept db 29857009 = Inr c1 \<and>
        FetchConcept db 267036007 = Inr c2 \<and> FetchConcept db 415690000 = Inr c3 \<and>
        FetchConcept db 426555006 = Inr c4 \<and> FetchConcept db 76388001 = Inr c5 \<and>
        GetAllParents db d = Inl e \<longrightarrow> MyocardialInfarctionTruth db = Inl e)"
proof (intro conjI impI allI)
  assume "FetchConcept db 22298006 = Inr d \<and> FetchConcept db 29857009 = Inr c1 \<and>
    FetchConcept db 267036007 = Inr c2 \<and> FetchConcept db 415690000 = Inr c3 \<and>
    FetchConcept db 426555006 = Inr c4 \<and> FetchConcept db 76388001 = Inr c5 \<and>
    GetAllParents db d = Inr ps"
  then show "\<exists>t. MyocardialInfarctionTruth db = Inr t \<and> Diagnosis t = d \<and> tParents t = ps \<and>
           length (Problems t) = 5 \<and>
           map Problem (Problems t) = [c1, c2, c3, c4, c5] \<and>
           map Probability (Problems t) = [0.95, 0.70, 0.80, 0.55, 0.60] \<and>
           map Duration (Problems t) = [Acute, Acute, Acute, Acute, Acute] \<and>
           SexBias t = NoSexBias \<and> MeanAge t = 60 \<and> StdDevAge t = 20"
    by (simp add: MyocardialInfarctionTruth_def toFakeTruth_def myocardialInfarction_def toFakeProblem_def)
next
  fix e
  assume "FetchConcept db 22298006 = Inr d \<and> FetchConcept db 29857009 = Inr c1 \<and>
        FetchConcept db 267036007 = Inr c2 \<and> FetchConcept db 415690000 = Inr c3 \<and>
        FetchConcept db 426555006 = Inr c4 \<and> FetchConcept db 76388001 = Inr c5 \<and>
        GetAllParents db d = Inl e"
  then show "MyocardialInfarctionTruth db = Inl e"
    by (simp add: MyocardialInfarctionTruth_def toFakeTruth_def myocardialInfarction_def toFakeProblem_def)
next
  assume "\<exists>i \<in> set [22298006, 29857009, 267036007, 415690000, 426555006, 76388001].
        \<exists>e. FetchConcept db i = Inl e"
  then show "\<exists>i \<in> set [22298006, 29857009, 267036007, 415690000, 426555006, 76388001].
        \<exists>e. FetchConcept db i = Inl e \<and> MyocardialInfarctionTruth db = Inl e"
    by (cases "FetchConcept db 22298006"; cases "FetchConcept db 29857009";
        cases "FetchConcept db 267036007"; cases "FetchConcept db 415690000";
        cases "FetchConcept db 426555006"; cases "FetchConcept db 76388001")
       (simp_all add: MyocardialInfarctionTruth_def toFakeTruth_def myocardialInfarction_def
          toFakeProblem_def)
qed

theorem MyocardialInfarctionTruth_loads_witness:
  "FetchConcept (exampleDb oneChild noParents ownFinding) 22298006 = Inr (conceptOf 22298006) \<and>
   GetAllParents (exampleDb oneChild noParents ownFinding) (conceptOf 22298006) = Inr [] \<and>
   length (Problems (projr (MyocardialInfarctionTruth (exampleDb oneChild noParents ownFinding)))) = 5 \<and>
   FetchConcept stElevationMissing 76388001 = Inl (Error ''unresolvable'') \<and>
   MyocardialInfarctionTruth stElevationMissing = Inl (Error ''unresolvable'')"
proof -
  have f: "\<And>i. FetchConcept (exampleDb oneChild noParents ownFinding) i = Inr (conceptOf i)"
    and p: "GetAllParents (exampleDb oneChild noParents ownFinding) (conceptOf 22298006) = Inr []"
    by (simp_all add: exampleDb_def noParents_def)
  have m: "\<And>i. FetchConcept stElevationMissing i =
      (if i = 76388001 then Inl (Error ''unresolvable'') else Inr (conceptOf i))"
    by (simp add: stElevationMissing_def)
  have ex: "\<exists>i \<in> set [22298006, 29857009, 267036007, 415690000, 426555006, 76388001].
        \<exists>e. FetchConcept stElevationMissing i = Inl e"
    by (simp add: m)
  from MyocardialInfarctionTruth_loads[THEN conjunct1, rule_format, OF conjI[OF f conjI[OF f
        conjI[OF f conjI[OF f conjI[OF f conjI[OF f p]]]]]]]
    MyocardialInfarctionTruth_loads[THEN conjunct2, THEN conjunct1, rule_format, OF ex]
    f p m
  show ?thesis by auto
qed

text \<open>
  Every concept of the literal resolves, the lookup of the ancestors fails: the loader
  returns the error and no truth.
\<close>

theorem MyocardialInfarctionTruth_ancestors_error:
  "FetchConcept (exampleDb oneChild failingParents ownFinding) 22298006 = Inr (conceptOf 22298006) \<and>
   FetchConcept (exampleDb oneChild failingParents ownFinding) 29857009 = Inr (conceptOf 29857009) \<and>
   FetchConcept (exampleDb oneChild failingParents ownFinding) 267036007 = Inr (conceptOf 267036007) \<and>
   FetchConcept (exampleDb oneChild failingParents ownFinding) 415690000 = Inr (conceptOf 415690000) \<and>
   FetchConcept (exampleDb oneChild failingParents ownFinding) 426555006 = Inr (conceptOf 426555006) \<and>
   FetchConcept (exampleDb oneChild failingParents ownFinding) 76388001 = Inr (conceptOf 76388001) \<and>
   MyocardialInfarctionTruth (exampleDb oneChild failingParents ownFinding) = Inl (Error ''no parents'')"
  by (simp add: MyocardialInfarctionTruth_def toFakeTruth_def myocardialInfarction_def toFakeProblem_def
      exampleDb_def failingParents_def)

end
